theory Spec2Isabelle
  imports Main "HOL-Library.Sublist"
begin

section \<open>JavaScript values used by the server\<close>

text \<open>
  The server is one TypeScript module, \<^verbatim>\<open>src/index.ts\<close>. A JavaScript string is a
  sequence of UTF-16 code units; the model uses \<^typ>\<open>string\<close>, whose characters are
  read as the code units U+0000 to U+00FF (ASCII and Latin-1). Numbers that the module
  prints (the ordinal, the seed, a file size, an image count, an HTTP status) are
  integers and are printed in decimal, as JavaScript prints an integer below \<open>10^21\<close>.
\<close>

definition code_unit :: "char \<Rightarrow> nat" where
  "code_unit c = of_char c"

text \<open>\<^verbatim>\<open>String.prototype.toLowerCase\<close> on one code unit of the Latin-1 range.\<close>

definition toLowerCase_char :: "char \<Rightarrow> char" where
  "toLowerCase_char c =
     (let n = code_unit c
      in if (65 \<le> n \<and> n \<le> 90) \<or> (192 \<le> n \<and> n \<le> 222 \<and> n \<noteq> 215)
         then char_of (n + 32) else c)"

definition toLowerCase :: "string \<Rightarrow> string" where
  "toLowerCase s = map toLowerCase_char s"

text \<open>The regular-expression class \<^verbatim>\<open>\s\<close>: tab, line feed, vertical tab, form feed,
  carriage return, space and no-break space are its members below U+0100.\<close>

definition is_space :: "char \<Rightarrow> bool" where
  "is_space c = (code_unit c \<in> {9, 10, 11, 12, 13, 32, 160})"

text \<open>The class \<^verbatim>\<open>[a-z0-9\s]\<close>, whose complement the first \<^verbatim>\<open>replace\<close> deletes.\<close>

definition is_lower_az :: "char \<Rightarrow> bool" where
  "is_lower_az c = (97 \<le> code_unit c \<and> code_unit c \<le> 122)"

definition is_digit09 :: "char \<Rightarrow> bool" where
  "is_digit09 c = (48 \<le> code_unit c \<and> code_unit c \<le> 57)"

definition kept_char :: "char \<Rightarrow> bool" where
  "kept_char c = (is_lower_az c \<or> is_digit09 c \<or> is_space c)"

text \<open>\<^verbatim>\<open>.replace(/[^a-z0-9\s]/g, '')\<close>\<close>

definition strip_unsafe :: "string \<Rightarrow> string" where
  "strip_unsafe s = filter kept_char s"

text \<open>\<^verbatim>\<open>.replace(/\s+/g, '_')\<close>: scanning from the left, a maximal run of white space
  is one match and is replaced by one underscore; any other character is copied.\<close>

function collapse_ws :: "string \<Rightarrow> string" where
  "collapse_ws [] = []"
| "collapse_ws (c # cs) =
     (if is_space c then CHR ''_'' # collapse_ws (dropWhile is_space cs)
      else c # collapse_ws cs)"
  by pat_completeness auto
termination
  by (relation "measure length") (auto simp: less_Suc_eq_le length_dropWhile_le)

text \<open>\<^verbatim>\<open>.substring(0, 50)\<close>\<close>

definition substring0 :: "nat \<Rightarrow> string \<Rightarrow> string" where
  "substring0 n s = take n s"

text \<open>The local \<^verbatim>\<open>safePrompt\<close> of \<^verbatim>\<open>generateImageFilename\<close>: the whole
  sanitize-and-truncate chain.\<close>

definition safePrompt :: "string \<Rightarrow> string" where
  "safePrompt prompt = substring0 50 (collapse_ws (strip_unsafe (toLowerCase prompt)))"

text \<open>Decimal printing of a number inside a template literal.\<close>

definition digit_char :: "nat \<Rightarrow> char" where
  "digit_char d = ''0123456789'' ! (d mod 10)"

fun js_nat :: "nat \<Rightarrow> string" where
  "js_nat n = (if n < 10 then [digit_char n] else js_nat (n div 10) @ [digit_char n])"

declare js_nat.simps [simp del]

definition js_int :: "int \<Rightarrow> string" where
  "js_int k = (if k < 0 then CHR ''-'' # js_nat (nat (- k)) else js_nat (nat k))"

text \<open>JavaScript truthiness of an optional number (\<^verbatim>\<open>undefined\<close> and \<open>0\<close> are falsy) and
  of an optional string (\<^verbatim>\<open>undefined\<close>, \<^verbatim>\<open>null\<close> and the empty string are falsy).\<close>

definition truthy_num :: "int option \<Rightarrow> bool" where
  "truthy_num v = (case v of None \<Rightarrow> False | Some k \<Rightarrow> k \<noteq> 0)"

definition truthy_str :: "string option \<Rightarrow> bool" where
  "truthy_str v = (case v of None \<Rightarrow> False | Some s \<Rightarrow> s \<noteq> [])"

text \<open>An optional value inside a template literal: \<^verbatim>\<open>undefined\<close> prints as that word.\<close>

definition js_str :: "string option \<Rightarrow> string" where
  "js_str v = (case v of None \<Rightarrow> ''undefined'' | Some s \<Rightarrow> s)"

text \<open>The line feed and the two quotation marks, as the template literals hold them.\<close>

definition nl :: string where
  "nl = [CHR 0x0A]"

definition dquote :: string where
  "dquote = [CHR 0x22]"

definition squote :: string where
  "squote = [CHR 0x27]"

section \<open>File names\<close>

text \<open>\<^verbatim>\<open>new Date().toISOString().replace(/[:.]/g, '-')\<close>, the clock reading \<open>clock\<close> being
  a parameter.\<close>

definition timestamp_of :: "string \<Rightarrow> string" where
  "timestamp_of clock = map (\<lambda>c. if c = CHR '':'' \<or> c = CHR ''.'' then CHR ''-'' else c) clock"

text \<open>\<^verbatim>\<open>const seedStr = seed ? `_${seed}` : ''\<close>\<close>

definition seedStr :: "int option \<Rightarrow> string" where
  "seedStr seed = (case seed of None \<Rightarrow> [] | Some k \<Rightarrow> if k \<noteq> 0 then ''_'' @ js_int k else [])"

definition generateImageFilename :: "string \<Rightarrow> nat \<Rightarrow> int option \<Rightarrow> string \<Rightarrow> string" where
  "generateImageFilename prompt index seed clock =
     ''minimax_'' @ safePrompt prompt @ seedStr seed @ ''_'' @ js_nat index @ ''_''
       @ timestamp_of clock @ ''.png''"

text \<open>The characters a sanitized name can hold: the chain leaves lower-case letters and
  digits, and the underscores that stand for white space.\<close>

definition name_char :: "char \<Rightarrow> bool" where
  "name_char c = (is_lower_az c \<or> is_digit09 c \<or> c = CHR ''_'')"

subsection \<open>The file name as the specification words it\<close>

text \<open>
  The specification describes the name in words: the naming seed in lower case, every
  character other than a letter, a digit or white space removed, each run of white
  space collapsed to a single underscore, the first 50 characters of that, an optional
  seed suffix, the ordinal and the ISO timestamp with colons and dots replaced by
  dashes. The definitions below follow those words (a letter being one of the 26
  letters of the basic alphabet); they are compared with the code's chain further down.
\<close>

definition spec_letter :: "char \<Rightarrow> bool" where
  "spec_letter c = (c \<in> set ''abcdefghijklmnopqrstuvwxyz'')"

definition spec_digit :: "char \<Rightarrow> bool" where
  "spec_digit c = (c \<in> set ''0123456789'')"

text \<open>A white-space character followed by another one vanishes; the last one of a run
  becomes the underscore.\<close>

fun spec_collapse :: "string \<Rightarrow> string" where
  "spec_collapse [] = []"
| "spec_collapse [c] = (if is_space c then ''_'' else [c])"
| "spec_collapse (c # d # cs) =
     (if is_space c
      then (if is_space d then spec_collapse (d # cs) else CHR ''_'' # spec_collapse (d # cs))
      else c # spec_collapse (d # cs))"

definition spec_safe_name :: "string \<Rightarrow> string" where
  "spec_safe_name s =
     take 50 (spec_collapse
       (filter (\<lambda>c. spec_letter c \<or> spec_digit c \<or> is_space c) (toLowerCase s)))"

fun spec_dashed :: "string \<Rightarrow> string" where
  "spec_dashed [] = []"
| "spec_dashed (c # cs) = (if c \<in> {CHR '':'', CHR ''.''} then CHR ''-'' else c) # spec_dashed cs"

section \<open>Thrown values, arguments and responses\<close>

text \<open>A thrown value is an \<^verbatim>\<open>Error\<close> with its message, or any other value; every catch
  block of the module tells the two apart by \<^verbatim>\<open>error instanceof Error\<close>.\<close>

datatype js_thrown = JsError string | JsOther

text \<open>How a run of a handler, or of a part of it, ends: it is done and hands back a
  value, or the process is killed. The module registers no \<^verbatim>\<open>uncaughtException\<close>
  handler, so an \<^verbatim>\<open>error\<close> event emitted by a stream that has no listener for it is
  thrown from the event loop and terminates the process; no \<^verbatim>\<open>try\<close> block of a handler
  is on the stack then, and nothing is handed back.\<close>

datatype 'a ending = Done 'a | Killed js_thrown

definition error_suffix :: "js_thrown \<Rightarrow> string" where
  "error_suffix err = (case err of JsError m \<Rightarrow> '' Error: '' @ m | JsOther \<Rightarrow> [])"

text \<open>A response is \<^verbatim>\<open>{ content: [{ type: "text", text }], isError? }\<close>; the success
  responses carry no \<^verbatim>\<open>isError\<close> key.\<close>

datatype content_item = TextContent string

record tool_response =
  content :: "content_item list"
  isError :: "bool option"

definition text_response :: "string \<Rightarrow> tool_response" where
  "text_response t = \<lparr>content = [TextContent t], isError = None\<rparr>"

definition error_response :: "string \<Rightarrow> tool_response" where
  "error_response t = \<lparr>content = [TextContent t], isError = Some True\<rparr>"

fun item_text :: "content_item \<Rightarrow> string" where
  "item_text (TextContent t) = t"

definition response_text :: "tool_response \<Rightarrow> string" where
  "response_text r = concat (map item_text (content r))"

text \<open>The module reads \<^verbatim>\<open>process.env.FAL_KEY\<close> once, when it is loaded, and sets
  \<^verbatim>\<open>falConfigured\<close>; nothing assigns the flag afterwards, so the handlers take it as a
  parameter. \<^verbatim>\<open>!FAL_KEY\<close> holds for an absent and for an empty variable.\<close>

definition falConfigured :: "string option \<Rightarrow> bool" where
  "falConfigured FAL_KEY = truthy_str FAL_KEY"

definition not_configured :: tool_response where
  "not_configured = error_response
     ''Error: FAL_KEY environment variable is not set. Please configure your fal.ai API key.''"

text \<open>The handlers take \<^verbatim>\<open>args: any\<close>; the model takes an object with the keys the input
  schemas declare, each of them present or absent (\<^verbatim>\<open>undefined\<close>).\<close>

record gen_args =
  prompt :: "string option"
  aspect_ratio :: "string option"
  num_images :: "int option"
  prompt_optimizer :: "bool option"
  sync_mode :: "bool option"
  webhook_url :: "string option"

record queue_args =
  request_id :: "string option"
  logs :: "bool option"

section \<open>The gateway and the outside world\<close>

text \<open>\<^verbatim>\<open>interface MinimaxImageResult\<close> and the values the vendor client returns.\<close>

record image =
  url :: string
  content_type :: "string option"
  file_name :: "string option"
  file_size :: "int option"

record MinimaxImageResult =
  images :: "image list"
  seed :: "int option"

record subscribe_result =
  data :: MinimaxImageResult
  requestId :: string

record log_entry =
  timestamp :: string
  message :: string

record queue_status =
  status :: string
  response_url :: "string option"
  status_logs :: "log_entry list option"

text \<open>What an HTTP GET of \<^verbatim>\<open>downloadImage\<close> can meet: a response with its status code
  and, for the piped body, the \<^verbatim>\<open>finish\<close> event of the write stream (with the bytes
  written) or its \<^verbatim>\<open>error\<close> event; or the \<^verbatim>\<open>error\<close> event of the request. These are
  the events of the network that the function registers a listener for; the model
  covers the runs on which one of them fires once the write stream is open.\<close>

datatype pipe_outcome = Finish string | FileError js_thrown

datatype net_outcome = Response nat pipe_outcome | RequestError js_thrown

text \<open>Calls that leave the handler: the four vendor calls and \<^verbatim>\<open>downloadImage\<close>.\<close>

datatype outside_call =
    Subscribe gen_args
  | QueueSubmit gen_args "string option"
  | QueueStatus "string option" bool
  | QueueResult "string option"
  | Download string string

record world =
  files :: "string \<rightharpoonup> string"
  dirs :: "string set"
  trace :: "outside_call list"

text \<open>The behaviour of everything outside the module: the working directory, whether the
  operating system lets the process create what is not yet at a path, the clock read by
  the \<open>i\<close>-th iteration of a download loop, whether \<^verbatim>\<open>new URL(url)\<close> accepts a string,
  the outcome of the GET issued by the \<open>i\<close>-th iteration, and the vendor client, each
  call of which returns a value or throws.\<close>

record env =
  cwd :: string
  writable :: "string \<Rightarrow> bool"
  now :: "nat \<Rightarrow> string"
  url_valid :: "string \<Rightarrow> bool"
  http_get :: "nat \<Rightarrow> string \<Rightarrow> net_outcome"
  fal_subscribe :: "gen_args \<Rightarrow> js_thrown + subscribe_result"
  fal_queue_submit :: "gen_args \<Rightarrow> string option \<Rightarrow> js_thrown + string"
  fal_queue_status :: "string option \<Rightarrow> bool \<Rightarrow> js_thrown + queue_status"
  fal_queue_result :: "string option \<Rightarrow> js_thrown + MinimaxImageResult"

definition called :: "outside_call \<Rightarrow> world \<Rightarrow> world" where
  "called c w = w\<lparr>trace := trace w @ [c]\<rparr>"

section \<open>Downloading one image\<close>

definition path_join :: "string \<Rightarrow> string \<Rightarrow> string" where
  "path_join a b = a @ ''/'' @ b"

text \<open>\<^verbatim>\<open>fs.existsSync\<close>: something is at the path, a directory or a file.\<close>

definition existsSync :: "world \<Rightarrow> string \<Rightarrow> bool" where
  "existsSync w path = (path \<in> dirs w \<or> files w path \<noteq> None)"

text \<open>\<^verbatim>\<open>fs.mkdirSync(dir, { recursive: true })\<close>: it makes the directory, or throws when
  the operating system refuses.\<close>

definition mkdirSync :: "env \<Rightarrow> string \<Rightarrow> world \<Rightarrow> js_thrown + world" where
  "mkdirSync e dir w =
     (if writable e dir then Inr (w\<lparr>dirs := insert dir (dirs w)\<rparr>)
      else Inl (JsError (''EACCES: permission denied, mkdir '' @ squote @ dir @ squote)))"

text \<open>The opening of the write stream made by \<^verbatim>\<open>fs.createWriteStream(filePath)\<close>. It
  happens after the call has returned; when it fails (the \<^verbatim>\<open>images\<close> path is a regular
  file, the target is a directory, or the operating system refuses), the stream emits
  an \<^verbatim>\<open>error\<close> event with that error.\<close>

definition open_error :: "env \<Rightarrow> world \<Rightarrow> string \<Rightarrow> string \<Rightarrow> js_thrown option" where
  "open_error e w dir path =
     (if files w dir \<noteq> None
      then Some (JsError (''ENOTDIR: not a directory, open '' @ squote @ path @ squote))
      else if path \<in> dirs w
      then Some (JsError (''EISDIR: illegal operation on a directory, open ''
                            @ squote @ path @ squote))
      else if \<not> writable e path
      then Some (JsError (''EACCES: permission denied, open '' @ squote @ path @ squote))
      else None)"

text \<open>
  \<^verbatim>\<open>downloadImage(url, filename)\<close>, in the order of the source: parse the URL (a throw
  rejects the promise before anything is created), make the \<^verbatim>\<open>images\<close> directory if
  nothing is at its path (a throw rejects the promise), create the write stream, then
  issue the GET. The only listener for the \<^verbatim>\<open>error\<close> event of the file is registered
  inside the callback of the response, after the check of the status. A stream that
  cannot be opened emits its \<^verbatim>\<open>error\<close> event while the request is still under way:
  there is no listener, and the process is killed. When the stream opens, the file is
  created or truncated; a status other than 200 rejects and returns; the \<^verbatim>\<open>finish\<close>
  event resolves with the path; the \<^verbatim>\<open>error\<close> event of the file unlinks the file and
  rejects; the \<^verbatim>\<open>error\<close> event of the request rejects.
\<close>

definition downloadImage ::
  "env \<Rightarrow> nat \<Rightarrow> string \<Rightarrow> string \<Rightarrow> world \<Rightarrow> (js_thrown + string) ending \<times> world" where
  "downloadImage e i u fname w =
     (let w0 = called (Download u fname) w
      in if \<not> url_valid e u then (Done (Inl (JsError ''Invalid URL'')), w0)
         else
           let imagesDir = path_join (cwd e) ''images''
           in case (if existsSync w0 imagesDir then Inr w0 else mkdirSync e imagesDir w0) of
                Inl error \<Rightarrow> (Done (Inl error), w0)
              | Inr w1 \<Rightarrow>
                  let filePath = path_join imagesDir fname
                  in case open_error e w1 imagesDir filePath of
                       Some err \<Rightarrow> (Killed err, w1)
                     | None \<Rightarrow>
                         let w2 = w1\<lparr>files := (files w1)(filePath \<mapsto> [])\<rparr>
                         in case http_get e i u of
                              Response statusCode body \<Rightarrow>
                                if statusCode \<noteq> 200
                                then (Done (Inl (JsError (''Failed to download image: HTTP ''
                                                           @ js_nat statusCode))), w2)
                                else (case body of
                                        Finish bytes \<Rightarrow>
                                          (Done (Inr filePath),
                                           w2\<lparr>files := (files w2)(filePath \<mapsto> bytes)\<rparr>)
                                      | FileError err \<Rightarrow>
                                          (Done (Inl err),
                                           w2\<lparr>files := (files w2)(filePath := None)\<rparr>))
                            | RequestError err \<Rightarrow> (Done (Inl err), w2))"

section \<open>The download loop and the report\<close>

text \<open>An entry of \<^verbatim>\<open>downloadedImages\<close>. The fields copied from the image carry the prefix
  \<open>d_\<close>, the names without it being those of the record \<open>image\<close>.\<close>

record downloaded =
  d_url :: string
  localPath :: "string option"
  index :: nat
  d_content_type :: string
  d_file_name :: string
  d_file_size :: "int option"
  filename :: string

text \<open>\<^verbatim>\<open>a || b\<close> on an optional string.\<close>

definition or_str :: "string option \<Rightarrow> string \<Rightarrow> string" where
  "or_str v d = (if truthy_str v then js_str v else d)"

definition entry :: "image \<Rightarrow> string option \<Rightarrow> nat \<Rightarrow> string \<Rightarrow> downloaded" where
  "entry img lp i fname =
     \<lparr>d_url = url img, localPath = lp, index = i + 1,
      d_content_type = or_str (content_type img) ''image/png'',
      d_file_name = or_str (file_name img) fname,
      d_file_size = file_size img, filename = fname\<rparr>"

text \<open>\<^verbatim>\<open>generateImageFilename\<close> as the loops call it: its first argument comes from
  \<^verbatim>\<open>args\<close>, and \<^verbatim>\<open>prompt.toLowerCase()\<close> throws a \<^verbatim>\<open>TypeError\<close> on \<^verbatim>\<open>undefined\<close>.\<close>

definition filename_for :: "string option \<Rightarrow> nat \<Rightarrow> int option \<Rightarrow> string \<Rightarrow> js_thrown + string" where
  "filename_for p k sd clock =
     (case p of
        None \<Rightarrow> Inl (JsError (''Cannot read properties of undefined (reading '' @ squote
                 @ ''toLowerCase'' @ squote @ '')''))
      | Some s \<Rightarrow> Inr (generateImageFilename s k sd clock))"

text \<open>
  The loop \<^verbatim>\<open>for (let i = 0; i < output.images.length; i++)\<close> of \<^verbatim>\<open>minimax_generate\<close>
  and of \<^verbatim>\<open>minimax_queue_result\<close> (the two bodies are the same text): \<open>i\<close> is the
  index reached, the list holds the images from \<open>i\<close> on, \<open>acc\<close> is \<^verbatim>\<open>downloadedImages\<close>.
  The file name is computed outside the inner \<^verbatim>\<open>try\<close>, so its throw leaves the loop;
  a rejected download is caught inside and pushes an entry with a null path; a download
  that kills the process ends the loop there.
\<close>

fun download_loop ::
  "env \<Rightarrow> string option \<Rightarrow> int option \<Rightarrow> nat \<Rightarrow> image list \<Rightarrow> downloaded list \<Rightarrow> world
     \<Rightarrow> (js_thrown + downloaded list) ending \<times> world" where
  "download_loop e p sd i [] acc w = (Done (Inr acc), w)"
| "download_loop e p sd i (img # rest) acc w =
     (case filename_for p (i + 1) sd (now e i) of
        Inl err \<Rightarrow> (Done (Inl err), w)
      | Inr fname \<Rightarrow>
          (case downloadImage e i (url img) fname w of
             (Done (Inr path), w') \<Rightarrow>
               download_loop e p sd (i + 1) rest (acc @ [entry img (Some path) i fname]) w'
           | (Done (Inl downloadError), w') \<Rightarrow>
               download_loop e p sd (i + 1) rest (acc @ [entry img None i fname]) w'
           | (Killed err, w') \<Rightarrow> (Killed err, w')))"

text \<open>\<^verbatim>\<open>Array.prototype.join\<close>\<close>

fun join :: "string \<Rightarrow> string list \<Rightarrow> string" where
  "join sep [] = []"
| "join sep [x] = x"
| "join sep (x # y # ys) = x @ sep @ join sep (y # ys)"

definition image_details :: "downloaded \<Rightarrow> string" where
  "image_details img =
     ''Image '' @ js_nat (index img) @ '':''
     @ (if truthy_str (localPath img) then nl @ ''  Local Path: '' @ js_str (localPath img) else [])
     @ nl @ ''  Original URL: '' @ d_url img
     @ nl @ ''  Filename: '' @ filename img
     @ nl @ ''  Content Type: '' @ d_content_type img
     @ (case d_file_size img of
          None \<Rightarrow> []
        | Some k \<Rightarrow> if k \<noteq> 0 then nl @ ''  File Size: '' @ js_int k @ '' bytes'' else [])"

definition imageDetails :: "downloaded list \<Rightarrow> string" where
  "imageDetails dl = join (nl @ nl) (map image_details dl)"

text \<open>\<^verbatim>\<open>output.seed ? `Seed: ${output.seed}` : 'Seed: Auto-generated'\<close>\<close>

definition seed_line :: "int option \<Rightarrow> string" where
  "seed_line sd =
     (case sd of
        None \<Rightarrow> ''Seed: Auto-generated''
      | Some k \<Rightarrow> if k \<noteq> 0 then ''Seed: '' @ js_int k else ''Seed: Auto-generated'')"

definition download_note :: "downloaded list \<Rightarrow> string" where
  "download_note dl =
     (if list_ex (\<lambda>img. truthy_str (localPath img)) dl
      then ''Images have been downloaded to the local '' @ squote @ ''images'' @ squote
             @ '' directory.''
      else ''Note: Local download failed, but original URLs are available.'')"

definition optimizer_line :: "bool option \<Rightarrow> string" where
  "optimizer_line opt =
     (case opt of
        None \<Rightarrow> []
      | Some b \<Rightarrow> ''Prompt Optimizer: '' @ (if b then ''Enabled'' else ''Disabled''))"

text \<open>The template literal \<^verbatim>\<open>responseText\<close> of \<^verbatim>\<open>minimax_generate\<close>.\<close>

definition generate_report ::
  "string option \<Rightarrow> string \<Rightarrow> int \<Rightarrow> bool option \<Rightarrow> subscribe_result \<Rightarrow> downloaded list \<Rightarrow> string" where
  "generate_report p aspect n opt res dl =
     ''Successfully generated '' @ js_nat (length dl)
       @ '' image(s) using fal-ai/minimax/image-01:'' @ nl @ nl
     @ ''Prompt: '' @ dquote @ js_str p @ dquote @ nl
     @ ''Aspect Ratio: '' @ aspect @ nl
     @ ''Number of Images: '' @ js_int n @ nl
     @ optimizer_line opt @ nl
     @ seed_line (seed (data res)) @ nl
     @ ''Request ID: '' @ requestId res @ nl @ nl
     @ ''Generated Images:'' @ nl
     @ imageDetails dl @ nl @ nl
     @ download_note dl"

text \<open>The template literal \<^verbatim>\<open>responseText\<close> of \<^verbatim>\<open>minimax_queue_result\<close>.\<close>

definition queue_result_report :: "string option \<Rightarrow> MinimaxImageResult \<Rightarrow> downloaded list \<Rightarrow> string" where
  "queue_result_report rid out dl =
     ''Queue Result for Request ID: '' @ js_str rid @ nl @ nl
     @ ''Successfully completed! Generated '' @ js_nat (length dl) @ '' image(s):'' @ nl @ nl
     @ seed_line (seed out) @ nl @ nl
     @ ''Generated Images:'' @ nl
     @ imageDetails dl @ nl @ nl
     @ download_note dl"

section \<open>The four tool handlers\<close>

text \<open>
  Each handler first returns the fixed error response when the module is not configured;
  it then destructures \<^verbatim>\<open>args\<close> and runs its \<^verbatim>\<open>try\<close> block, whose \<^verbatim>\<open>catch\<close> turns a
  thrown value into an error response. The \<^verbatim>\<open>try\<close> block is a function of its own,
  returning the thrown value on the left; the handler's result is a sum as well, the
  left side standing for a value thrown past the handler. The two handlers that
  download images can also end with the process killed. The diagnostics written with
  \<^verbatim>\<open>console.error\<close> are not part of the model.
\<close>

definition generate_input :: "gen_args \<Rightarrow> gen_args" where
  "generate_input a =
     \<lparr>prompt = prompt a,
      aspect_ratio = Some (case aspect_ratio a of None \<Rightarrow> ''1:1'' | Some r \<Rightarrow> r),
      num_images = Some (case num_images a of None \<Rightarrow> 1 | Some k \<Rightarrow> k),
      prompt_optimizer = prompt_optimizer a,
      sync_mode = Some (case sync_mode a of None \<Rightarrow> True | Some b \<Rightarrow> b),
      webhook_url = None\<rparr>"

definition minimax_generate_try ::
  "env \<Rightarrow> gen_args \<Rightarrow> world \<Rightarrow> (js_thrown + tool_response) ending \<times> world" where
  "minimax_generate_try e a w =
     (let input = generate_input a;
          w1 = called (Subscribe input) w
      in case fal_subscribe e input of
           Inl err \<Rightarrow> (Done (Inl err), w1)
         | Inr res \<Rightarrow>
             (case download_loop e (prompt a) (seed (data res)) 0 (images (data res)) [] w1 of
                (Killed err, w2) \<Rightarrow> (Killed err, w2)
              | (Done (Inl err), w2) \<Rightarrow> (Done (Inl err), w2)
              | (Done (Inr dl), w2) \<Rightarrow>
                  (Done (Inr (text_response
                     (generate_report (prompt a)
                        (case aspect_ratio a of None \<Rightarrow> ''1:1'' | Some r \<Rightarrow> r)
                        (case num_images a of None \<Rightarrow> 1 | Some k \<Rightarrow> k)
                        (prompt_optimizer a) res dl))), w2)))"

definition minimax_generate ::
  "bool \<Rightarrow> env \<Rightarrow> gen_args \<Rightarrow> world \<Rightarrow> (js_thrown + tool_response) ending \<times> world" where
  "minimax_generate configured e a w =
     (if \<not> configured then (Done (Inr not_configured), w)
      else case minimax_generate_try e a w of
             (Killed err, w') \<Rightarrow> (Killed err, w')
           | (Done (Inr r), w') \<Rightarrow> (Done (Inr r), w')
           | (Done (Inl err), w') \<Rightarrow>
               (Done (Inr (error_response
                  (''Failed to generate image with fal-ai/minimax/image-01.''
                     @ error_suffix err))),
                w'))"

text \<open>\<^verbatim>\<open>const { webhook_url, ...input } = args\<close>: the request body is \<^verbatim>\<open>args\<close> without the
  webhook URL, which travels beside it.\<close>

definition queue_submit_text :: "string \<Rightarrow> string option \<Rightarrow> string option \<Rightarrow> string" where
  "queue_submit_text rid p hook =
     ''Successfully submitted image generation request to queue.'' @ nl @ nl
     @ ''Request ID: '' @ rid @ nl
     @ ''Prompt: '' @ dquote @ js_str p @ dquote @ nl
     @ (if truthy_str hook then ''Webhook URL: '' @ js_str hook else ''No webhook configured'')
     @ nl @ nl
     @ ''Use the request ID with minimax_queue_status to check progress or ''
     @ ''minimax_queue_result to get the final result.''"

definition minimax_generate_queue_try ::
  "env \<Rightarrow> gen_args \<Rightarrow> world \<Rightarrow> (js_thrown + tool_response) \<times> world" where
  "minimax_generate_queue_try e a w =
     (let hook = webhook_url a;
          input = a\<lparr>webhook_url := None\<rparr>;
          w1 = called (QueueSubmit input hook) w
      in case fal_queue_submit e input hook of
           Inl err \<Rightarrow> (Inl err, w1)
         | Inr rid \<Rightarrow> (Inr (text_response (queue_submit_text rid (prompt input) hook)), w1))"

definition minimax_generate_queue ::
  "bool \<Rightarrow> env \<Rightarrow> gen_args \<Rightarrow> world \<Rightarrow> (js_thrown + tool_response) \<times> world" where
  "minimax_generate_queue configured e a w =
     (if \<not> configured then (Inr not_configured, w)
      else case minimax_generate_queue_try e a w of
             (Inr r, w') \<Rightarrow> (Inr r, w')
           | (Inl err, w') \<Rightarrow>
               (Inr (error_response
                  (''Failed to submit queue request for fal-ai/minimax/image-01.''
                     @ error_suffix err)),
                w'))"

definition log_line :: "log_entry \<Rightarrow> string" where
  "log_line l = ''['' @ timestamp l @ ''] '' @ message l"

definition queue_status_text :: "string option \<Rightarrow> queue_status \<Rightarrow> string" where
  "queue_status_text rid st =
     ''Queue Status for Request ID: '' @ js_str rid @ nl @ nl
     @ ''Status: '' @ status st
     @ (if truthy_str (response_url st) then nl @ ''Response URL: '' @ js_str (response_url st)
        else [])
     @ (case status_logs st of
          None \<Rightarrow> []
        | Some ls \<Rightarrow>
            if length ls > 0 then nl @ nl @ ''Logs:'' @ nl @ join nl (map log_line ls) else [])"

definition minimax_queue_status_try ::
  "env \<Rightarrow> queue_args \<Rightarrow> world \<Rightarrow> (js_thrown + tool_response) \<times> world" where
  "minimax_queue_status_try e a w =
     (let with_logs = (case logs a of None \<Rightarrow> True | Some b \<Rightarrow> b);
          w1 = called (QueueStatus (request_id a) with_logs) w
      in case fal_queue_status e (request_id a) with_logs of
           Inl err \<Rightarrow> (Inl err, w1)
         | Inr st \<Rightarrow> (Inr (text_response (queue_status_text (request_id a) st)), w1))"

definition minimax_queue_status ::
  "bool \<Rightarrow> env \<Rightarrow> queue_args \<Rightarrow> world \<Rightarrow> (js_thrown + tool_response) \<times> world" where
  "minimax_queue_status configured e a w =
     (if \<not> configured then (Inr not_configured, w)
      else case minimax_queue_status_try e a w of
             (Inr r, w') \<Rightarrow> (Inr r, w')
           | (Inl err, w') \<Rightarrow>
               (Inr (error_response (''Failed to check queue status.'' @ error_suffix err)), w'))"

text \<open>The naming seed of \<^verbatim>\<open>minimax_queue_result\<close> is the template literal
  \<^verbatim>\<open>`queue_result_${request_id}`\<close>, a string whatever the request id is.\<close>

definition minimax_queue_result_try ::
  "env \<Rightarrow> queue_args \<Rightarrow> world \<Rightarrow> (js_thrown + tool_response) ending \<times> world" where
  "minimax_queue_result_try e a w =
     (let w1 = called (QueueResult (request_id a)) w
      in case fal_queue_result e (request_id a) of
           Inl err \<Rightarrow> (Done (Inl err), w1)
         | Inr out \<Rightarrow>
             (case download_loop e (Some (''queue_result_'' @ js_str (request_id a))) (seed out) 0
                     (images out) [] w1 of
                (Killed err, w2) \<Rightarrow> (Killed err, w2)
              | (Done (Inl err), w2) \<Rightarrow> (Done (Inl err), w2)
              | (Done (Inr dl), w2) \<Rightarrow>
                  (Done (Inr (text_response (queue_result_report (request_id a) out dl))),
                   w2)))"

definition minimax_queue_result ::
  "bool \<Rightarrow> env \<Rightarrow> queue_args \<Rightarrow> world \<Rightarrow> (js_thrown + tool_response) ending \<times> world" where
  "minimax_queue_result configured e a w =
     (if \<not> configured then (Done (Inr not_configured), w)
      else case minimax_queue_result_try e a w of
             (Killed err, w') \<Rightarrow> (Killed err, w')
           | (Done (Inr r), w') \<Rightarrow> (Done (Inr r), w')
           | (Done (Inl err), w') \<Rightarrow>
               (Done (Inr (error_response (''Failed to get queue result.'' @ error_suffix err))),
                w'))"

section \<open>A session of tool calls\<close>

text \<open>The module registers the four handlers under their tool names; a session is a
  sequence of calls, each meeting the outside world as it is at that moment, all of them
  under the one flag computed when the module was loaded. The queue submission and the
  status check download nothing and always hand back a result. A call that kills the
  process is the last one of the session.\<close>

datatype tool_call =
    Generate gen_args
  | GenerateQueue gen_args
  | Status queue_args
  | Result queue_args

fun call_tool ::
  "bool \<Rightarrow> env \<Rightarrow> tool_call \<Rightarrow> world \<Rightarrow> (js_thrown + tool_response) ending \<times> world" where
  "call_tool configured e (Generate a) w = minimax_generate configured e a w"
| "call_tool configured e (GenerateQueue a) w =
     (case minimax_generate_queue configured e a w of (r, w') \<Rightarrow> (Done r, w'))"
| "call_tool configured e (Status q) w =
     (case minimax_queue_status configured e q w of (r, w') \<Rightarrow> (Done r, w'))"
| "call_tool configured e (Result q) w = minimax_queue_result configured e q w"

fun serve ::
  "bool \<Rightarrow> (env \<times> tool_call) list \<Rightarrow> world
     \<Rightarrow> (js_thrown + tool_response) ending list \<times> world" where
  "serve configured [] w = ([], w)"
| "serve configured ((e, c) # cs) w =
     (case call_tool configured e c w of
        (Killed err, w') \<Rightarrow> ([Killed err], w')
      | (Done r, w') \<Rightarrow>
          (case serve configured cs w' of (rs, w'') \<Rightarrow> (Done r # rs, w'')))"

text \<open>A structured response: one text block, and the error flag absent or set.\<close>

definition structured :: "tool_response \<Rightarrow> bool" where
  "structured r =
     ((case content r of [TextContent t] \<Rightarrow> True | _ \<Rightarrow> False)
      \<and> (isError r = None \<or> isError r = Some True))"

text \<open>What a handler hands back: a structured response, and not a value thrown past it.\<close>

definition returns_structured :: "js_thrown + tool_response \<Rightarrow> bool" where
  "returns_structured res = (case res of Inl thrown \<Rightarrow> False | Inr r \<Rightarrow> structured r)"

text \<open>The same of a run that can end with the process killed: such a run hands back
  nothing.\<close>

definition ends_structured :: "(js_thrown + tool_response) ending \<Rightarrow> bool" where
  "ends_structured res = (case res of Killed err \<Rightarrow> False | Done r \<Rightarrow> returns_structured r)"

section \<open>The declared input schema\<close>

text \<open>The \<^verbatim>\<open>inputSchema\<close> object registered with \<^verbatim>\<open>minimax_generate\<close>: the prompt is
  required and at most 1500 characters long, the aspect ratio is one of eight strings,
  the number of images is an integer between its minimum and its maximum.\<close>

record integer_schema =
  minimum :: int
  maximum :: int

definition num_images_schema :: integer_schema where
  "num_images_schema = \<lparr>minimum = 1, maximum = 9\<rparr>"

definition prompt_maxLength :: nat where
  "prompt_maxLength = 1500"

definition aspect_ratio_enum :: "string list" where
  "aspect_ratio_enum = [''1:1'', ''16:9'', ''4:3'', ''3:2'', ''2:3'', ''3:4'', ''9:16'', ''21:9'']"

text \<open>Modelled from the spec: the schema-validation boundary of the protocol layer, which
  is the MCP library and not a part of this repository. The specification has the tool
  arguments checked against the declared schema at the protocol boundary, before the
  handler runs; a call that fails the check never reaches the handler.\<close>

definition schema_accepts :: "gen_args \<Rightarrow> bool" where
  "schema_accepts a =
     ((case prompt a of None \<Rightarrow> False | Some p \<Rightarrow> length p \<le> prompt_maxLength)
      \<and> (case aspect_ratio a of None \<Rightarrow> True | Some r \<Rightarrow> r \<in> set aspect_ratio_enum)
      \<and> (case num_images a of
            None \<Rightarrow> True
          | Some k \<Rightarrow> minimum num_images_schema \<le> k \<and> k \<le> maximum num_images_schema))"

datatype 'a validated = Rejected | Passed 'a

definition validated_minimax_generate ::
  "bool \<Rightarrow> env \<Rightarrow> gen_args \<Rightarrow> world
     \<Rightarrow> (js_thrown + tool_response) ending validated \<times> world" where
  "validated_minimax_generate configured e a w =
     (if schema_accepts a
      then (case minimax_generate configured e a w of (r, w') \<Rightarrow> (Passed r, w'))
      else (Rejected, w))"

section \<open>Notions used in the statements\<close>

definition world0 :: world where
  "world0 = \<lparr>files = Map.empty, dirs = {}, trace = []\<rparr>"

text \<open>The text of what a handler returned; a handler that was killed returned none.\<close>

definition result_text :: "(js_thrown + tool_response) \<times> world \<Rightarrow> string" where
  "result_text res = (case fst res of Inl thrown \<Rightarrow> [] | Inr r \<Rightarrow> response_text r)"

definition ended_text :: "(js_thrown + tool_response) ending \<times> world \<Rightarrow> string" where
  "ended_text res =
     (case fst res of Done (Inr r) \<Rightarrow> response_text r | Done (Inl thrown) \<Rightarrow> [] | Killed err \<Rightarrow> [])"

text \<open>The directory of the images and the path a download writes to.\<close>

definition images_dir :: "env \<Rightarrow> string" where
  "images_dir e = path_join (cwd e) ''images''"

definition target_path :: "env \<Rightarrow> string \<Rightarrow> string" where
  "target_path e fname = path_join (path_join (cwd e) ''images'') fname"

text \<open>The write stream of a download opens: no regular file sits at the path of the
  directory, the directory is there or can be made, and the target is not a directory
  and can be created.\<close>

definition stream_ready :: "env \<Rightarrow> world \<Rightarrow> string \<Rightarrow> bool" where
  "stream_ready e w fname =
     (files w (images_dir e) = None
      \<and> (images_dir e \<in> dirs w \<or> writable e (images_dir e))
      \<and> target_path e fname \<notin> dirs w
      \<and> writable e (target_path e fname))"

text \<open>How the promise of \<^verbatim>\<open>downloadImage\<close> settles when the write stream opens: the
  function is run on an empty disk where everything can be created.\<close>

definition settles :: "env \<Rightarrow> nat \<Rightarrow> string \<Rightarrow> string \<Rightarrow> js_thrown + string" where
  "settles e i u fname =
     (case fst (downloadImage (e\<lparr>writable := (\<lambda>path. True)\<rparr>) i u fname world0) of
        Done r \<Rightarrow> r
      | Killed err \<Rightarrow> Inl err)"

text \<open>The entry the loop pushes for the image at index \<open>i\<close>, and the entries and the
  calls of \<^verbatim>\<open>downloadImage\<close> for the images from \<open>i\<close> on.\<close>

definition entry_at :: "env \<Rightarrow> string \<Rightarrow> int option \<Rightarrow> nat \<Rightarrow> image \<Rightarrow> downloaded" where
  "entry_at e p sd i img =
     (let fname = generateImageFilename p (i + 1) sd (now e i)
      in entry img (case settles e i (url img) fname of Inl err \<Rightarrow> None | Inr path \<Rightarrow> Some path)
           i fname)"

fun entries_from :: "env \<Rightarrow> string \<Rightarrow> int option \<Rightarrow> nat \<Rightarrow> image list \<Rightarrow> downloaded list" where
  "entries_from e p sd i [] = []"
| "entries_from e p sd i (img # rest) = entry_at e p sd i img # entries_from e p sd (i + 1) rest"

fun attempts_from :: "env \<Rightarrow> string \<Rightarrow> int option \<Rightarrow> nat \<Rightarrow> image list \<Rightarrow> outside_call list" where
  "attempts_from e p sd i [] = []"
| "attempts_from e p sd i (img # rest) =
     Download (url img) (generateImageFilename p (i + 1) sd (now e i))
       # attempts_from e p sd (i + 1) rest"

section \<open>Sample runs\<close>

text \<open>An outside world in which every vendor call throws \<open>Error("boom")\<close>, everything
  can be created on the disk and every GET succeeds; the sample runs change one
  behaviour of it at a time.\<close>

definition down_env :: env where
  "down_env =
     \<lparr>cwd = ''/srv'', writable = (\<lambda>path. True),
      now = (\<lambda>i. ''2024-01-02T03:04:05.678Z''), url_valid = (\<lambda>u. True),
      http_get = (\<lambda>i u. Response 200 (Finish ''png'')),
      fal_subscribe = (\<lambda>input. Inl (JsError ''boom'')),
      fal_queue_submit = (\<lambda>input hook. Inl (JsError ''boom'')),
      fal_queue_status = (\<lambda>rid with_logs. Inl (JsError ''boom'')),
      fal_queue_result = (\<lambda>rid. Inl (JsError ''boom''))\<rparr>"

definition no_args :: gen_args where
  "no_args =
     \<lparr>prompt = None, aspect_ratio = None, num_images = None, prompt_optimizer = None,
      sync_mode = None, webhook_url = None\<rparr>"

text \<open>The arguments \<^verbatim>\<open>{prompt: "test", aspect_ratio: "16:9"}\<close> and a stub of the vendor's
  submit call that returns \<^verbatim>\<open>{request_id: "abc123"}\<close>.\<close>

definition test_args :: gen_args where
  "test_args = no_args\<lparr>prompt := Some ''test'', aspect_ratio := Some ''16:9''\<rparr>"

definition submit_stub_env :: env where
  "submit_stub_env = down_env\<lparr>fal_queue_submit := (\<lambda>input hook. Inr ''abc123'')\<rparr>"

text \<open>An outside world whose image host answers every GET with the status 404.\<close>

definition not_found_env :: env where
  "not_found_env = down_env\<lparr>http_get := (\<lambda>i u. Response 404 (Finish []))\<rparr>"

definition one_image :: image where
  "one_image =
     \<lparr>url = ''https://cdn.example/a.png'', content_type = None, file_name = None,
      file_size = None\<rparr>"

text \<open>A synchronous run with the prompt \<open>cat\<close>: the vendor returns two images and no seed,
  the host answers the first GET with 404 and the second with the image.\<close>

definition cat_args :: gen_args where
  "cat_args = no_args\<lparr>prompt := Some ''cat''\<rparr>"

definition two_images_result :: subscribe_result where
  "two_images_result =
     \<lparr>data = \<lparr>images = [one_image, one_image\<lparr>url := ''https://cdn.example/b.png''\<rparr>],
              seed = None\<rparr>,
      requestId = ''req-1''\<rparr>"

text \<open>A synchronous run in which the vendor returns one image and the seed \<open>0\<close>.\<close>

definition seed_zero_result :: subscribe_result where
  "seed_zero_result =
     \<lparr>data = \<lparr>images = [one_image], seed = Some 0\<rparr>, requestId = ''req-1''\<rparr>"

definition seed_zero_env :: env where
  "seed_zero_env = down_env\<lparr>fal_subscribe := (\<lambda>input. Inr seed_zero_result)\<rparr>"

definition first_fails_env :: env where
  "first_fails_env =
     down_env\<lparr>fal_subscribe := (\<lambda>input. Inr two_images_result),
              http_get := (\<lambda>i u. if i = 0 then Response 404 (Finish [])
                                 else Response 200 (Finish ''png''))\<rparr>"

text \<open>A run in which the vendor returns two images and every GET would succeed.\<close>

definition two_images_env :: env where
  "two_images_env = down_env\<lparr>fal_subscribe := (\<lambda>input. Inr two_images_result)\<rparr>"

text \<open>A disk on which a regular file named \<open>images\<close> sits in the working directory.\<close>

definition blocked_world :: world where
  "blocked_world = world0\<lparr>files := [''/srv/images'' \<mapsto> ''notes'']\<rparr>"

text \<open>A queued job whose result holds one image, fetched while the \<open>images\<close> directory
  exists and nothing can be created in it.\<close>

definition readonly_env :: env where
  "readonly_env =
     down_env\<lparr>writable := (\<lambda>path. False),
              fal_queue_result := (\<lambda>rid. Inr \<lparr>images = [one_image], seed = None\<rparr>)\<rparr>"

definition readonly_world :: world where
  "readonly_world = world0\<lparr>dirs := {''/srv/images''}\<rparr>"

definition job_args :: queue_args where
  "job_args = \<lparr>request_id = Some ''abc123'', logs = None\<rparr>"

section \<open>Properties of the file-name transform\<close>

lemma underscore_code: "code_unit (CHR ''_'') = 95"
  by (simp add: code_unit_def)

lemma underscore_not_kept: "\<not> kept_char (CHR ''_'')"
  by (simp add: kept_char_def is_lower_az_def is_digit09_def is_space_def underscore_code)

lemma kept_lower_fixed: "kept_char c \<Longrightarrow> toLowerCase_char c = c"
  by (auto simp: kept_char_def is_lower_az_def is_digit09_def is_space_def
      toLowerCase_char_def Let_def)

lemma name_lower_fixed: "name_char c \<Longrightarrow> toLowerCase_char c = c"
  by (auto simp: name_char_def is_lower_az_def is_digit09_def toLowerCase_char_def Let_def
      underscore_code)

lemma name_char_kept: "name_char c \<Longrightarrow> kept_char c \<longleftrightarrow> c \<noteq> CHR ''_''"
  using underscore_not_kept by (auto simp: name_char_def kept_char_def)

lemma name_char_not_space: "name_char c \<Longrightarrow> \<not> is_space c"
  by (auto simp: name_char_def is_lower_az_def is_digit09_def is_space_def underscore_code)

lemma collapse_ws_chars:
  "c \<in> set (collapse_ws s) \<Longrightarrow> c = CHR ''_'' \<or> (c \<in> set s \<and> \<not> is_space c)"
  by (induction s rule: collapse_ws.induct) (auto split: if_splits dest: set_dropWhileD)

lemma collapse_ws_no_space: "\<forall>c \<in> set s. \<not> is_space c \<Longrightarrow> collapse_ws s = s"
  by (induction s) auto

lemma safePrompt_chars: "c \<in> set (safePrompt s) \<Longrightarrow> name_char c"
  unfolding safePrompt_def substring0_def strip_unsafe_def
  by (auto dest!: in_set_takeD collapse_ws_chars simp: name_char_def kept_char_def)

lemma length_safePrompt: "length (safePrompt s) \<le> 50"
  by (simp add: safePrompt_def substring0_def)

lemma toLowerCase_fixed: "\<forall>c \<in> set u. toLowerCase_char c = c \<Longrightarrow> toLowerCase u = u"
  by (simp add: toLowerCase_def map_idI)

lemma strip_name_chars:
  "\<forall>c \<in> set u. name_char c \<Longrightarrow> strip_unsafe u = filter (\<lambda>c. c \<noteq> CHR ''_'') u"
  unfolding strip_unsafe_def by (rule filter_cong) (auto simp: name_char_kept)

text \<open>On a string that already is a sanitized name, the chain only deletes the
  underscores: they are not in the class the first \<^verbatim>\<open>replace\<close> keeps.\<close>

lemma safePrompt_on_name_chars:
  assumes "\<forall>c \<in> set u. name_char c" and "length u \<le> 50"
  shows "safePrompt u = filter (\<lambda>c. c \<noteq> CHR ''_'') u"
proof -
  have low: "toLowerCase u = u"
    using assms(1) by (intro toLowerCase_fixed) (auto simp: name_lower_fixed)
  have str: "strip_unsafe u = filter (\<lambda>c. c \<noteq> CHR ''_'') u"
    using assms(1) by (rule strip_name_chars)
  have "\<forall>c \<in> set (filter (\<lambda>c. c \<noteq> CHR ''_'') u). \<not> is_space c"
    using assms(1) by (auto simp: name_char_not_space)
  then have col: "collapse_ws (filter (\<lambda>c. c \<noteq> CHR ''_'') u) = filter (\<lambda>c. c \<noteq> CHR ''_'') u"
    by (rule collapse_ws_no_space)
  have "length (filter (\<lambda>c. c \<noteq> CHR ''_'') u) \<le> 50"
    using assms(2) length_filter_le [of "\<lambda>c. c \<noteq> CHR ''_''" u] by linarith
  then show ?thesis
    by (simp add: safePrompt_def substring0_def low str col)
qed

lemma safePrompt_twice:
  "safePrompt (safePrompt s) = filter (\<lambda>c. c \<noteq> CHR ''_'') (safePrompt s)"
  by (rule safePrompt_on_name_chars) (auto simp: safePrompt_chars length_safePrompt)

lemma filter_step_idem:
  "strip_unsafe (toLowerCase (strip_unsafe (toLowerCase s))) = strip_unsafe (toLowerCase s)"
proof -
  have "\<forall>c \<in> set (strip_unsafe (toLowerCase s)). kept_char c"
    by (simp add: strip_unsafe_def)
  then have "toLowerCase (strip_unsafe (toLowerCase s)) = strip_unsafe (toLowerCase s)"
    by (intro toLowerCase_fixed) (auto simp: kept_lower_fixed)
  then show ?thesis by (simp add: strip_unsafe_def)
qed

text \<open>
  Claim C4, as stated: the sanitize-and-truncate transform is idempotent. It is not: the
  underscore that the first application writes for a run of white space is deleted by
  the second one. At the input \<open>a b\<close> the first application gives \<open>a_b\<close> and the second
  gives \<open>ab\<close>.
\<close>

theorem safePrompt_not_idempotent:
  "safePrompt (safePrompt ''a b'') \<noteq> safePrompt ''a b''"
  by code_simp

text \<open>
  Claim C4, amended: the character-filtering step alone (lower case, then deletion of
  every character outside \<^verbatim>\<open>[a-z0-9\s]\<close>) is idempotent; a second application of the
  whole transform returns the first result with its underscores deleted, so the
  transform applied twice equals the transform applied once exactly when the sanitized
  name holds no underscore.
\<close>

theorem safePrompt_twice_drops_underscores:
  "strip_unsafe (toLowerCase (strip_unsafe (toLowerCase s))) = strip_unsafe (toLowerCase s)
   \<and> safePrompt (safePrompt s) = filter (\<lambda>c. c \<noteq> CHR ''_'') (safePrompt s)
   \<and> (safePrompt (safePrompt s) = safePrompt s) = (CHR ''_'' \<notin> set (safePrompt s))"
proof -
  have "(safePrompt (safePrompt s) = safePrompt s) = (CHR ''_'' \<notin> set (safePrompt s))"
    unfolding safePrompt_twice by (auto simp: filter_id_conv)
  then show ?thesis
    using filter_step_idem safePrompt_twice by simp
qed

subsection \<open>The code's chain against the specification's words\<close>

lemma code_unit_inverse: "char_of (code_unit c) = c"
  by (simp add: code_unit_def)

lemma letters_upt: "''abcdefghijklmnopqrstuvwxyz'' = map char_of [97..<123::nat]"
  by code_simp

lemma digits_upt: "''0123456789'' = map char_of [48..<58::nat]"
  by code_simp

lemma is_lower_az_letter: "is_lower_az c \<longleftrightarrow> spec_letter c"
proof
  assume "spec_letter c"
  then obtain n :: nat where "97 \<le> n" "n < 123" "c = char_of n"
    unfolding spec_letter_def letters_upt by auto
  then show "is_lower_az c"
    by (simp add: is_lower_az_def code_unit_def)
next
  assume "is_lower_az c"
  then have "code_unit c \<in> set [97..<123]"
    unfolding is_lower_az_def set_upt atLeastLessThan_iff by arith
  then have "char_of (code_unit c) \<in> set (map char_of [97..<123::nat])"
    unfolding set_map by (rule imageI)
  then show "spec_letter c"
    by (simp only: spec_letter_def letters_upt code_unit_inverse)
qed

lemma is_digit09_digit: "is_digit09 c \<longleftrightarrow> spec_digit c"
proof
  assume "spec_digit c"
  then obtain n :: nat where "48 \<le> n" "n < 58" "c = char_of n"
    unfolding spec_digit_def digits_upt by auto
  then show "is_digit09 c"
    by (simp add: is_digit09_def code_unit_def)
next
  assume "is_digit09 c"
  then have "code_unit c \<in> set [48..<58]"
    unfolding is_digit09_def set_upt atLeastLessThan_iff by arith
  then have "char_of (code_unit c) \<in> set (map char_of [48..<58::nat])"
    unfolding set_map by (rule imageI)
  then show "spec_digit c"
    by (simp only: spec_digit_def digits_upt code_unit_inverse)
qed

lemma collapse_ws_spec: "collapse_ws s = spec_collapse s"
  by (induction s rule: spec_collapse.induct) auto

lemma timestamp_of_spec: "timestamp_of clock = spec_dashed clock"
  by (induction clock) (auto simp: timestamp_of_def)

lemma kept_char_spec: "kept_char = (\<lambda>c. spec_letter c \<or> spec_digit c \<or> is_space c)"
  by (simp add: fun_eq_iff kept_char_def is_lower_az_letter is_digit09_digit)

lemma safePrompt_spec: "safePrompt s = spec_safe_name s"
  by (simp add: safePrompt_def spec_safe_name_def substring0_def strip_unsafe_def
      collapse_ws_spec kept_char_spec)

text \<open>
  The code against the words, for every naming seed, ordinal, seed and clock reading:
  the name is the prefix \<open>minimax_\<close>, the naming seed as the specification sanitizes
  it, the seed suffix of the code, an underscore, the ordinal, an underscore, the
  timestamp with colons and dots replaced by dashes, and \<open>.png\<close>. The suffix of the code
  is empty when no seed is given and is \<open>_seed\<close> for a seed other than zero.
\<close>

lemma generateImageFilename_refines_spec:
  "generateImageFilename p i sd clock =
     ''minimax_'' @ spec_safe_name p @ seedStr sd @ ''_'' @ js_nat i @ ''_''
       @ spec_dashed clock @ ''.png''
   \<and> (sd = None \<longrightarrow> seedStr sd = [])
   \<and> (\<forall>k. sd = Some k \<and> k \<noteq> 0 \<longrightarrow> seedStr sd = ''_'' @ js_int k)"
  by (auto simp: generateImageFilename_def safePrompt_spec timestamp_of_spec seedStr_def
      split: option.splits)

text \<open>A seed of zero is given and gets no suffix: the name is the one of the absent
  seed, for every naming seed, ordinal and clock reading.\<close>

lemma seed_zero_name: "generateImageFilename p i (Some 0) clock = generateImageFilename p i None clock"
  by (simp add: generateImageFilename_def seedStr_def)

text \<open>
  Claim C7: for every naming seed, ordinal and optional seed number,
  \<^verbatim>\<open>generateImageFilename\<close> returns the prefix, the sanitized naming seed, the suffix
  \<open>_seed\<close> when a seed is given, the ordinal and the timestamp. The code tests the seed
  for truthiness, not for presence: with the naming seed \<open>cat\<close> and the ordinal 1, the
  seed 7 gives the suffix \<open>_7\<close>, and the seed 0 gives no suffix, the name being the one
  of a call without a seed.
\<close>

theorem seed_zero_gets_no_suffix:
  "generateImageFilename ''cat'' 1 (Some 7) ''2024-01-02T03:04:05.678Z''
     = ''minimax_cat_7_1_2024-01-02T03-04-05-678Z.png''
   \<and> generateImageFilename ''cat'' 1 (Some 0) ''2024-01-02T03:04:05.678Z''
     = ''minimax_cat_1_2024-01-02T03-04-05-678Z.png''
   \<and> generateImageFilename ''cat'' 1 None ''2024-01-02T03:04:05.678Z''
     = ''minimax_cat_1_2024-01-02T03-04-05-678Z.png''"
  by code_simp

section \<open>The handlers without a credential\<close>

lemma falConfigured_absent: "\<not> falConfigured None"
  by (simp add: falConfigured_def truthy_str_def)

lemma call_tool_unconfigured: "call_tool False e c w = (Done (Inr not_configured), w)"
  by (cases c)
    (simp_all add: minimax_generate_def minimax_generate_queue_def minimax_queue_status_def
      minimax_queue_result_def)

lemma serve_unconfigured:
  "serve False calls w = (replicate (length calls) (Done (Inr not_configured)), w)"
  by (induction calls arbitrary: w) (auto simp: call_tool_unconfigured)

text \<open>
  Claim C2: when the credential variable is absent as the module is loaded, the flag is
  false; each of the four handlers then returns the one fixed response, whose error flag
  is set, and leaves the world as it was: no vendor call, no download, no file, whatever
  the arguments and whatever the outside world would have answered. The flag being
  computed once, every call of a session gets that same response and the session leaves
  the world untouched.
\<close>

theorem unconfigured_short_circuit:
  "\<not> falConfigured None
   \<and> isError not_configured = Some True
   \<and> minimax_generate (falConfigured None) e a w = (Done (Inr not_configured), w)
   \<and> minimax_generate_queue (falConfigured None) e a w = (Inr not_configured, w)
   \<and> minimax_queue_status (falConfigured None) e q w = (Inr not_configured, w)
   \<and> minimax_queue_result (falConfigured None) e q w = (Done (Inr not_configured), w)
   \<and> serve (falConfigured None) calls w
       = (replicate (length calls) (Done (Inr not_configured)), w)"
  by (simp add: falConfigured_absent serve_unconfigured not_configured_def error_response_def
      minimax_generate_def minimax_generate_queue_def minimax_queue_status_def
      minimax_queue_result_def)

section \<open>What a download leaves on disk\<close>

lemma path_join_neq: "path_join d f \<noteq> d" "d \<noteq> path_join d f"
  by (simp_all add: path_join_def)

lemma target_path_neq_dir: "target_path e f \<noteq> images_dir e"
  by (simp add: target_path_def images_dir_def path_join_neq)

lemma downloadImage_trace:
  "trace (snd (downloadImage e i u fname w)) = trace w @ [Download u fname]"
  by (simp add: downloadImage_def Let_def called_def mkdirSync_def
      split: net_outcome.splits pipe_outcome.splits option.splits sum.splits)

lemma downloadImage_ready:
  assumes "stream_ready e w fname"
  shows "fst (downloadImage e i u fname w) = Done (settles e i u fname)"
  using assms
  by (auto simp: settles_def downloadImage_def Let_def called_def mkdirSync_def existsSync_def
      open_error_def stream_ready_def images_dir_def target_path_def world0_def path_join_neq
      split: net_outcome.splits pipe_outcome.splits)

lemma downloadImage_keeps_ready:
  assumes "stream_ready e w f" and "stream_ready e w fname"
  shows "stream_ready e (snd (downloadImage e i u fname w)) f"
  using assms
  by (auto simp: downloadImage_def Let_def called_def mkdirSync_def existsSync_def
      open_error_def stream_ready_def images_dir_def target_path_def path_join_neq
      split: net_outcome.splits pipe_outcome.splits)

lemma downloadImage_non200:
  assumes "url_valid e u" and "stream_ready e w fname"
    and "http_get e i u = Response st body" and "st \<noteq> 200"
  shows "fst (downloadImage e i u fname w)
           = Done (Inl (JsError (''Failed to download image: HTTP '' @ js_nat st)))
       \<and> files (snd (downloadImage e i u fname w)) (target_path e fname) = Some []"
  using assms
  by (auto simp: downloadImage_def Let_def target_path_def called_def mkdirSync_def
      existsSync_def open_error_def stream_ready_def images_dir_def path_join_neq)

lemma downloadImage_deleted_iff:
  assumes "url_valid e u" and "stream_ready e w fname"
  shows "(files (snd (downloadImage e i u fname w)) (target_path e fname) = None)
       = (\<exists>err. http_get e i u = Response 200 (FileError err))"
  using assms
  by (auto simp: downloadImage_def Let_def target_path_def called_def mkdirSync_def
      existsSync_def open_error_def stream_ready_def images_dir_def path_join_neq
      split: net_outcome.splits pipe_outcome.splits)

lemma downloadImage_other_files:
  "path \<noteq> target_path e fname \<Longrightarrow>
   files (snd (downloadImage e i u fname w)) path = files w path"
  by (auto simp: downloadImage_def Let_def target_path_def called_def mkdirSync_def
      split: net_outcome.splits pipe_outcome.splits option.splits sum.splits)

lemma downloadImage_file_error:
  assumes "url_valid e u" and "stream_ready e w fname"
    and "http_get e i u = Response 200 (FileError err)"
  shows "fst (downloadImage e i u fname w) = Done (Inl err)"
  using assms
  by (auto simp: downloadImage_def Let_def called_def mkdirSync_def
      existsSync_def open_error_def stream_ready_def images_dir_def target_path_def
      path_join_neq)

text \<open>The stream that cannot be opened: whatever the network answers, the call ends with
  the process killed.\<close>

lemma downloadImage_killed:
  assumes "url_valid e u" and "existsSync w (images_dir e) \<or> writable e (images_dir e)"
    and "\<not> stream_ready e w fname"
  shows "\<exists>err. fst (downloadImage e i u fname w) = Killed err"
  using assms
  by (auto simp: downloadImage_def Let_def called_def mkdirSync_def
      existsSync_def open_error_def stream_ready_def images_dir_def target_path_def
      path_join_neq)

text \<open>
  Claim C10: for a URL that parses and a write stream that opens, a response with a
  status other than 200 rejects the promise with the error
  \<open>Failed to download image: HTTP status\<close>, and the file created at the target path
  before the request is still there, empty. After the call the target path holds no file
  exactly when the write stream raised its \<^verbatim>\<open>error\<close> event after a 200 response (the
  promise then rejects with that error); no other outcome deletes it, and no outcome
  touches another path.
\<close>

theorem downloadImage_non200_leaves_empty_file:
  assumes "url_valid e u" and "stream_ready e w fname"
  shows "(\<forall>st body. http_get e i u = Response st body \<and> st \<noteq> 200 \<longrightarrow>
            fst (downloadImage e i u fname w)
              = Done (Inl (JsError (''Failed to download image: HTTP '' @ js_nat st)))
            \<and> files (snd (downloadImage e i u fname w)) (target_path e fname) = Some [])
       \<and> ((files (snd (downloadImage e i u fname w)) (target_path e fname) = None)
            = (\<exists>err. http_get e i u = Response 200 (FileError err)))
       \<and> (\<forall>err. http_get e i u = Response 200 (FileError err) \<longrightarrow>
            fst (downloadImage e i u fname w) = Done (Inl err))
       \<and> (\<forall>path. path \<noteq> target_path e fname \<longrightarrow>
            files (snd (downloadImage e i u fname w)) path = files w path)"
proof (intro conjI allI impI)
  fix st body
  assume "http_get e i u = Response st body \<and> st \<noteq> 200"
  then show "fst (downloadImage e i u fname w)
      = Done (Inl (JsError (''Failed to download image: HTTP '' @ js_nat st)))"
    and "files (snd (downloadImage e i u fname w)) (target_path e fname) = Some []"
    using downloadImage_non200 [OF assms, of i st body] by simp_all
next
  show "(files (snd (downloadImage e i u fname w)) (target_path e fname) = None)
      = (\<exists>err. http_get e i u = Response 200 (FileError err))"
    by (rule downloadImage_deleted_iff [OF assms])
next
  fix err
  assume "http_get e i u = Response 200 (FileError err)"
  then show "fst (downloadImage e i u fname w) = Done (Inl err)"
    by (rule downloadImage_file_error [OF assms])
next
  fix path
  assume "path \<noteq> target_path e fname"
  then show "files (snd (downloadImage e i u fname w)) path = files w path"
    by (rule downloadImage_other_files)
qed

theorem downloadImage_non200_leaves_empty_file_witness:
  "url_valid not_found_env ''https://cdn.example/a.png''
   \<and> stream_ready not_found_env world0 ''a.png''
   \<and> (http_get not_found_env 0 ''https://cdn.example/a.png'' = Response 404 (Finish [])
        \<and> (404::nat) \<noteq> 200)
   \<and> fst (downloadImage not_found_env 0 ''https://cdn.example/a.png'' ''a.png'' world0)
       = Done (Inl (JsError ''Failed to download image: HTTP 404''))
   \<and> files (snd (downloadImage not_found_env 0 ''https://cdn.example/a.png'' ''a.png'' world0))
       ''/srv/images/a.png'' = Some []"
proof -
  have v: "url_valid not_found_env ''https://cdn.example/a.png''"
    by (simp add: not_found_env_def down_env_def)
  have r: "stream_ready not_found_env world0 ''a.png''"
    by (simp add: stream_ready_def world0_def not_found_env_def down_env_def)
  have g: "http_get not_found_env 0 ''https://cdn.example/a.png'' = Response 404 (Finish [])
      \<and> (404::nat) \<noteq> 200"
    by (simp add: not_found_env_def)
  have n: "js_nat 404 = ''404''" by code_simp
  have t: "target_path not_found_env ''a.png'' = ''/srv/images/a.png''"
    by (simp add: target_path_def path_join_def not_found_env_def down_env_def)
  note inst = downloadImage_non200_leaves_empty_file
    [OF v r, of 0, THEN conjunct1, rule_format, OF g]
  show ?thesis
    using inst v r g unfolding n t by simp
qed

section \<open>What a handler hands back\<close>

lemma structured_text: "structured (text_response t)"
  by (simp add: structured_def text_response_def)

lemma structured_error: "structured (error_response t)"
  by (simp add: structured_def error_response_def)

lemma minimax_generate_try_structured:
  "minimax_generate_try e a w = (Done (Inr r), w') \<Longrightarrow> structured r"
  by (auto simp: minimax_generate_try_def Let_def structured_text
      split: sum.splits prod.splits ending.splits)

lemma minimax_generate_ends:
  "ends_structured (fst (minimax_generate c e a w))
   \<or> (\<exists>err. fst (minimax_generate c e a w) = Killed err)"
  by (auto simp: minimax_generate_def ends_structured_def returns_structured_def
      not_configured_def structured_error
      split: prod.splits sum.splits ending.splits dest: minimax_generate_try_structured)

lemma minimax_generate_queue_structured:
  "returns_structured (fst (minimax_generate_queue c e a w))"
  by (auto simp: minimax_generate_queue_def minimax_generate_queue_try_def Let_def
      returns_structured_def not_configured_def structured_error structured_text
      split: prod.splits sum.splits)

lemma minimax_queue_status_structured:
  "returns_structured (fst (minimax_queue_status c e q w))"
  by (auto simp: minimax_queue_status_def minimax_queue_status_try_def Let_def
      returns_structured_def not_configured_def structured_error structured_text
      split: prod.splits sum.splits)

lemma minimax_queue_result_try_structured:
  "minimax_queue_result_try e q w = (Done (Inr r), w') \<Longrightarrow> structured r"
  by (auto simp: minimax_queue_result_try_def Let_def structured_text
      split: sum.splits prod.splits ending.splits)

lemma minimax_queue_result_ends:
  "ends_structured (fst (minimax_queue_result c e q w))
   \<or> (\<exists>err. fst (minimax_queue_result c e q w) = Killed err)"
  by (auto simp: minimax_queue_result_def ends_structured_def returns_structured_def
      not_configured_def structured_error
      split: prod.splits sum.splits ending.splits dest: minimax_queue_result_try_structured)

lemma minimax_generate_catches_TypeError:
  "fst (minimax_generate True
     (down_env\<lparr>fal_subscribe :=
        (\<lambda>input. Inr \<lparr>data = \<lparr>images = [one_image], seed = None\<rparr>, requestId = ''r1''\<rparr>)\<rparr>)
     no_args world0)
   = Done (Inr (error_response
       (''Failed to generate image with fal-ai/minimax/image-01. Error: ''
          @ ''Cannot read properties of undefined (reading '' @ squote @ ''toLowerCase''
          @ squote @ '')'')))"
  by (simp add: minimax_generate_def minimax_generate_try_def down_env_def no_args_def
      generate_input_def filename_for_def error_suffix_def Let_def)

text \<open>No handler throws past its boundary: the queue submission and the status check
  always hand back a structured response, and the two handlers that download images
  hand one back unless the process is killed.\<close>

lemma handlers_return_or_are_killed:
  "(ends_structured (fst (minimax_generate c e a w))
      \<or> (\<exists>err. fst (minimax_generate c e a w) = Killed err))
   \<and> returns_structured (fst (minimax_generate_queue c e a w))
   \<and> returns_structured (fst (minimax_queue_status c e q w))
   \<and> (ends_structured (fst (minimax_queue_result c e q w))
      \<or> (\<exists>err. fst (minimax_queue_result c e q w) = Killed err))"
  using minimax_generate_ends [of c e a w] minimax_queue_result_ends [of c e q w]
  by (simp add: minimax_generate_queue_structured minimax_queue_status_structured)

text \<open>
  Claim C3: for every input and every behaviour of the outside, each of the four handlers
  returns a structured response and nothing crashes the process from within a handler.
  In the run below \<^verbatim>\<open>minimax_queue_result\<close> is called for a job with one image while
  the \<open>images\<close> directory exists and no file can be created in it. The write stream of
  the download cannot be opened; its \<^verbatim>\<open>error\<close> event finds no listener, because
  \<^verbatim>\<open>downloadImage\<close> registers the listener only inside the callback of a 200 response.
  The process is killed and the handler hands back no response.
\<close>

theorem unopened_stream_kills_queue_result:
  "fst (minimax_queue_result True readonly_env job_args readonly_world)
     = Killed (JsError (''EACCES: permission denied, open '' @ squote
         @ ''/srv/images/minimax_queueresultabc123_1_2024-01-02T03-04-05-678Z.png'' @ squote))
   \<and> \<not> ends_structured (fst (minimax_queue_result True readonly_env job_args readonly_world))"
  by code_simp

section \<open>The texts of the queue tools\<close>

lemma sublist_skip: "sublist x ys \<Longrightarrow> sublist x (p @ ys)"
  by (auto simp: sublist_def) (metis append.assoc)

lemma queue_status_text_has_id: "sublist rid (queue_status_text (Some rid) st)"
  unfolding queue_status_text_def js_str_def option.case by (rule sublist_appendI)

text \<open>
  Claim C5, as stated: the text of every response of \<^verbatim>\<open>minimax_queue_status\<close> contains
  the request id, also when the vendor call throws. On that path the text is the fixed
  message of the \<^verbatim>\<open>catch\<close> block followed by the message of the error; with the request
  id \<open>abc123\<close> and a vendor call that throws \<open>Error("boom")\<close> the id is not in it.
\<close>

theorem queue_status_error_text_lacks_id:
  "fst (minimax_queue_status True down_env \<lparr>request_id = Some ''abc123'', logs = None\<rparr> world0)
     = Inr (error_response ''Failed to check queue status. Error: boom'')
   \<and> \<not> sublist ''abc123''
         (response_text (error_response ''Failed to check queue status. Error: boom''))"
proof -
  have "\<not> sublist ''abc123'' ''Failed to check queue status. Error: boom''"
    by code_simp
  then show ?thesis
    by (simp add: minimax_queue_status_def minimax_queue_status_try_def down_env_def Let_def
        error_suffix_def response_text_def error_response_def)
qed

text \<open>
  Claim C5, amended: when the module is configured and the vendor's status call returns,
  the response of \<^verbatim>\<open>minimax_queue_status\<close> is a success response whose text contains the
  request id given as input, verbatim.
\<close>

theorem queue_status_text_contains_id:
  assumes "request_id q = Some rid"
    and "fal_queue_status e (Some rid) (case logs q of None \<Rightarrow> True | Some b \<Rightarrow> b) = Inr st"
  shows "\<exists>r w'. minimax_queue_status True e q w = (Inr r, w') \<and> isError r = None
           \<and> sublist rid (response_text r)"
  using assms
  by (simp add: minimax_queue_status_def minimax_queue_status_try_def Let_def text_response_def
      response_text_def queue_status_text_has_id)

theorem queue_status_text_contains_id_witness:
  "request_id \<lparr>request_id = Some ''abc123'', logs = None\<rparr> = Some ''abc123''
   \<and> (\<exists>r w'. minimax_queue_status True
          (down_env\<lparr>fal_queue_status := (\<lambda>rid with_logs.
             Inr \<lparr>status = ''IN_QUEUE'', response_url = None, status_logs = None\<rparr>)\<rparr>)
          \<lparr>request_id = Some ''abc123'', logs = None\<rparr> world0 = (Inr r, w')
        \<and> isError r = None \<and> sublist ''abc123'' (response_text r))"
  using queue_status_text_contains_id
    [of "\<lparr>request_id = Some ''abc123'', logs = None\<rparr>" "''abc123''"
      "down_env\<lparr>fal_queue_status := (\<lambda>rid with_logs.
         Inr \<lparr>status = ''IN_QUEUE'', response_url = None, status_logs = None\<rparr>)\<rparr>"
      "\<lparr>status = ''IN_QUEUE'', response_url = None, status_logs = None\<rparr>" world0]
  by (simp add: down_env_def)

text \<open>The failure paths of \<^verbatim>\<open>minimax_queue_status\<close>: the text is the fixed message of the
  \<^verbatim>\<open>catch\<close> block followed by the message of the error, whatever the request id is;
  without a credential it is the fixed text of the unconfigured module.\<close>

lemma queue_status_failure_text:
  "fal_queue_status e (request_id q) (case logs q of None \<Rightarrow> True | Some b \<Rightarrow> b) = Inl err \<Longrightarrow>
   fst (minimax_queue_status True e q w)
     = Inr (error_response (''Failed to check queue status.'' @ error_suffix err))"
  "fst (minimax_queue_status False e q w) = Inr not_configured"
  by (simp_all add: minimax_queue_status_def minimax_queue_status_try_def Let_def)

lemma submit_stub_text:
  "fal_queue_submit e test_args None = Inr ''abc123'' \<Longrightarrow>
   minimax_generate_queue True e test_args w
     = (Inr (text_response (queue_submit_text ''abc123'' (Some ''test'') None)),
        called (QueueSubmit test_args None) w)"
  by (simp add: minimax_generate_queue_def minimax_generate_queue_try_def Let_def test_args_def
      no_args_def)

lemma submit_text_has_id:
  "sublist ''abc123'' (queue_submit_text ''abc123'' (Some ''test'') None)"
  by code_simp

lemma submit_text_has_prompt:
  "sublist ''test'' (queue_submit_text ''abc123'' (Some ''test'') None)"
  by code_simp

lemma submit_text_lacks_ratio:
  "\<not> sublist ''16:9'' (queue_submit_text ''abc123'' (Some ''test'') None)"
  by code_simp

text \<open>
  Claim C6, as stated: \<^verbatim>\<open>minimax_generate_queue\<close>, called with the prompt \<open>test\<close> and the
  aspect ratio \<open>16:9\<close> against a stub that returns the request id \<open>abc123\<close>, answers with
  a text that contains \<open>abc123\<close> and \<open>16:9\<close>. The text holds the request id, the prompt
  and the webhook line; the aspect ratio is not in it.
\<close>

theorem queue_submit_text_lacks_aspect_ratio:
  "\<not> (sublist ''abc123''
         (result_text (minimax_generate_queue True submit_stub_env test_args world0))
      \<and> sublist ''16:9''
         (result_text (minimax_generate_queue True submit_stub_env test_args world0)))"
proof -
  have "fal_queue_submit submit_stub_env test_args None = Inr ''abc123''"
    by (simp add: submit_stub_env_def down_env_def)
  then have "result_text (minimax_generate_queue True submit_stub_env test_args world0)
      = queue_submit_text ''abc123'' (Some ''test'') None"
    by (simp add: submit_stub_text result_text_def response_text_def text_response_def)
  then show ?thesis
    using submit_text_lacks_ratio by simp
qed

text \<open>
  Claim C6, amended: in that scenario the handler makes one submit call, whose request
  body carries the aspect ratio \<open>16:9\<close>, and answers with a success text that contains
  the request id \<open>abc123\<close> and the prompt \<open>test\<close>; the text does not contain \<open>16:9\<close>.
\<close>

theorem queue_submit_text_has_id_and_prompt:
  assumes "fal_queue_submit e test_args None = Inr ''abc123''"
  shows "fst (minimax_generate_queue True e test_args w)
           = Inr (text_response (queue_submit_text ''abc123'' (Some ''test'') None))
    \<and> snd (minimax_generate_queue True e test_args w) = called (QueueSubmit test_args None) w
    \<and> aspect_ratio test_args = Some ''16:9''
    \<and> sublist ''abc123'' (result_text (minimax_generate_queue True e test_args w))
    \<and> sublist ''test'' (result_text (minimax_generate_queue True e test_args w))
    \<and> \<not> sublist ''16:9'' (result_text (minimax_generate_queue True e test_args w))"
proof -
  have t: "result_text (minimax_generate_queue True e test_args w)
      = queue_submit_text ''abc123'' (Some ''test'') None"
    using assms
    by (simp add: submit_stub_text result_text_def response_text_def text_response_def)
  have "aspect_ratio test_args = Some ''16:9''"
    by (simp add: test_args_def)
  then show ?thesis
    unfolding t using submit_text_has_id submit_text_has_prompt submit_text_lacks_ratio
    by (simp add: submit_stub_text [OF assms])
qed

theorem queue_submit_text_has_id_and_prompt_witness:
  "fal_queue_submit submit_stub_env test_args None = Inr ''abc123''
   \<and> sublist ''abc123''
       (result_text (minimax_generate_queue True submit_stub_env test_args world0))
   \<and> sublist ''test''
       (result_text (minimax_generate_queue True submit_stub_env test_args world0))"
proof -
  have h: "fal_queue_submit submit_stub_env test_args None = Inr ''abc123''"
    by (simp add: submit_stub_env_def down_env_def)
  show ?thesis
    using h queue_submit_text_has_id_and_prompt [OF h, of world0] by simp
qed

section \<open>The download loop\<close>

lemma stream_ready_called: "stream_ready e (called c w) f = stream_ready e w f"
  by (simp add: stream_ready_def called_def)

lemma stream_ready_http_get: "stream_ready (e\<lparr>http_get := g\<rparr>) w f = stream_ready e w f"
  by (simp add: stream_ready_def images_dir_def target_path_def)

text \<open>One iteration with a prompt that is a string and a stream that opens: whatever the
  network does, the loop pushes the entry of this image and goes on with the next
  index.\<close>

lemma download_loop_step:
  assumes "stream_ready e w (generateImageFilename p (i + 1) sd (now e i))"
  shows "download_loop e (Some p) sd i (img # rest) acc w =
     download_loop e (Some p) sd (i + 1) rest (acc @ [entry_at e p sd i img])
       (snd (downloadImage e i (url img) (generateImageFilename p (i + 1) sd (now e i)) w))"
proof -
  let ?f = "generateImageFilename p (i + 1) sd (now e i)"
  obtain r w' where d: "downloadImage e i (url img) ?f w = (r, w')"
    by (cases "downloadImage e i (url img) ?f w")
  then have s: "r = Done (settles e i (url img) ?f)"
    using downloadImage_ready [OF assms, of i "url img"] by simp
  show ?thesis
    using d s
    by (cases "settles e i (url img) ?f") (simp_all add: filename_for_def entry_at_def Let_def)
qed

lemma download_loop_entries:
  assumes "\<forall>f. stream_ready e w f"
  shows "fst (download_loop e (Some p) sd i imgs acc w)
           = Done (Inr (acc @ entries_from e p sd i imgs))"
  using assms
proof (induction imgs arbitrary: i acc w)
  case Nil
  show ?case by simp
next
  case (Cons img rest)
  let ?f = "generateImageFilename p (i + 1) sd (now e i)"
  have "\<forall>f. stream_ready e (snd (downloadImage e i (url img) ?f w)) f"
    using Cons.prems by (simp add: downloadImage_keeps_ready)
  from Cons.IH [OF this] show ?case
    unfolding download_loop_step [OF Cons.prems [rule_format]] by simp
qed

lemma download_loop_trace:
  assumes "\<forall>f. stream_ready e w f"
  shows "trace (snd (download_loop e (Some p) sd i imgs acc w))
           = trace w @ attempts_from e p sd i imgs"
  using assms
proof (induction imgs arbitrary: i acc w)
  case Nil
  show ?case by simp
next
  case (Cons img rest)
  let ?f = "generateImageFilename p (i + 1) sd (now e i)"
  have "\<forall>f. stream_ready e (snd (downloadImage e i (url img) ?f w)) f"
    using Cons.prems by (simp add: downloadImage_keeps_ready)
  from Cons.IH [OF this] show ?case
    unfolding download_loop_step [OF Cons.prems [rule_format]]
    by (simp add: downloadImage_trace)
qed

lemma length_entries_from: "length (entries_from e p sd i imgs) = length imgs"
  by (induction imgs arbitrary: i) simp_all

lemma nth_entries_from:
  "j < length imgs \<Longrightarrow> entries_from e p sd i imgs ! j = entry_at e p sd (i + j) (imgs ! j)"
proof (induction imgs arbitrary: i j)
  case Nil
  then show ?case by simp
next
  case (Cons img rest)
  show ?case
  proof (cases j)
    case 0
    then show ?thesis by simp
  next
    case (Suc k)
    with Cons.prems have "k < length rest" by simp
    from Cons.IH [OF this, of "i + 1"] Suc show ?thesis by simp
  qed
qed

lemma attempts_from_entries:
  "attempts_from e p sd i imgs
     = map (\<lambda>d. Download (d_url d) (filename d)) (entries_from e p sd i imgs)"
  by (induction imgs arbitrary: i) (simp_all add: entry_at_def entry_def Let_def)

lemma entry_at_url: "d_url (entry_at e p sd i img) = url img"
  by (simp add: entry_at_def entry_def Let_def)

lemma entry_at_index: "index (entry_at e p sd i img) = i + 1"
  by (simp add: entry_at_def entry_def Let_def)

lemma entry_at_localPath:
  "localPath (entry_at e p sd i img)
     = (case settles e i (url img) (filename (entry_at e p sd i img)) of
          Inl err \<Rightarrow> None | Inr path \<Rightarrow> Some path)"
  by (simp add: entry_at_def entry_def Let_def)

lemma settles_other_get:
  "g j = http_get e j \<Longrightarrow> settles (e\<lparr>http_get := g\<rparr>) j u f = settles e j u f"
  by (simp add: settles_def downloadImage_def Let_def existsSync_def mkdirSync_def
      open_error_def)

lemma entry_at_other_get:
  "g j = http_get e j \<Longrightarrow> entry_at (e\<lparr>http_get := g\<rparr>) p sd j img = entry_at e p sd j img"
  by (simp add: entry_at_def settles_other_get)

lemma minimax_generate_success:
  assumes "prompt a = Some p" and "fal_subscribe e (generate_input a) = Inr res"
    and "\<forall>f. stream_ready e w f"
  shows "\<exists>r. minimax_generate True e a w =
           (Done (Inr r), snd (download_loop e (Some p) (seed (data res)) 0 (images (data res)) []
                          (called (Subscribe (generate_input a)) w)))
         \<and> isError r = None"
proof -
  let ?w1 = "called (Subscribe (generate_input a)) w"
  let ?run = "download_loop e (Some p) (seed (data res)) 0 (images (data res)) [] ?w1"
  have ready: "\<forall>f. stream_ready e ?w1 f"
    using assms(3) by (simp add: stream_ready_called)
  obtain x w' where run: "?run = (x, w')" by (cases ?run)
  with download_loop_entries [OF ready, of p "seed (data res)" 0 "images (data res)" "[]"]
  obtain dl where x: "x = Done (Inr dl)" by simp
  show ?thesis
    using assms(1,2)
    by (simp add: minimax_generate_def minimax_generate_try_def Let_def run x text_response_def)
qed

text \<open>
  The loop when every write stream opens: for a request that carries a prompt and a
  vendor result with \<open>n\<close> images, the loop ends with \<open>n\<close> entries and the handler returns
  a response without the error flag; the handler calls \<^verbatim>\<open>downloadImage\<close> once per
  entry, in order; entry \<open>i\<close> carries the URL of image \<open>i\<close> and the ordinal \<open>i + 1\<close>, a
  null path when the promise of its download is rejected and the resolved path
  otherwise; and in any other outside world that differs only in what the GET of
  download \<open>i\<close> meets, every entry \<open>j \<noteq> i\<close> is the same.
\<close>

lemma download_isolation_when_streams_open:
  assumes "prompt a = Some p" and "fal_subscribe e (generate_input a) = Inr res"
    and "\<forall>f. stream_ready e w f"
  shows "\<exists>dl w' r.
      download_loop e (prompt a) (seed (data res)) 0 (images (data res)) []
          (called (Subscribe (generate_input a)) w) = (Done (Inr dl), w')
    \<and> minimax_generate True e a w = (Done (Inr r), w') \<and> isError r = None
    \<and> length dl = length (images (data res))
    \<and> trace w' = trace w @ Subscribe (generate_input a)
                     # map (\<lambda>d. Download (d_url d) (filename d)) dl
    \<and> (\<forall>i < length (images (data res)).
          d_url (dl ! i) = url (images (data res) ! i) \<and> index (dl ! i) = i + 1
        \<and> (\<forall>err. settles e i (d_url (dl ! i)) (filename (dl ! i)) = Inl err
              \<longrightarrow> localPath (dl ! i) = None)
        \<and> (\<forall>path. settles e i (d_url (dl ! i)) (filename (dl ! i)) = Inr path
              \<longrightarrow> localPath (dl ! i) = Some path)
        \<and> (\<forall>g dl' v v'.
              (\<forall>j. j \<noteq> i \<longrightarrow> g j = http_get e j) \<and> (\<forall>f. stream_ready e v f)
              \<and> download_loop (e\<lparr>http_get := g\<rparr>) (prompt a) (seed (data res)) 0
                    (images (data res)) [] v = (Done (Inr dl'), v')
              \<longrightarrow> (\<forall>j < length (images (data res)). j \<noteq> i \<longrightarrow> dl' ! j = dl ! j)))"
proof -
  let ?sd = "seed (data res)" and ?imgs = "images (data res)"
  let ?w1 = "called (Subscribe (generate_input a)) w"
  let ?dl = "entries_from e p ?sd 0 ?imgs"
  let ?w' = "snd (download_loop e (Some p) ?sd 0 ?imgs [] ?w1)"
  have ready: "\<forall>f. stream_ready e ?w1 f"
    using assms(3) by (simp add: stream_ready_called)
  have run: "download_loop e (prompt a) ?sd 0 ?imgs [] ?w1 = (Done (Inr ?dl), ?w')"
    using download_loop_entries [OF ready, of p ?sd 0 ?imgs "[]"]
    by (simp add: assms(1) prod_eq_iff)
  obtain r where r: "minimax_generate True e a w = (Done (Inr r), ?w')" "isError r = None"
    using minimax_generate_success [OF assms] by blast
  have len: "length ?dl = length ?imgs"
    by (rule length_entries_from)
  have "trace ?w' = trace ?w1 @ attempts_from e p ?sd 0 ?imgs"
    by (rule download_loop_trace [OF ready])
  then have tr: "trace ?w' = trace w @ Subscribe (generate_input a)
      # map (\<lambda>d. Download (d_url d) (filename d)) ?dl"
    by (simp add: attempts_from_entries called_def)
  have each: "d_url (?dl ! i) = url (?imgs ! i) \<and> index (?dl ! i) = i + 1
        \<and> (\<forall>err. settles e i (d_url (?dl ! i)) (filename (?dl ! i)) = Inl err
              \<longrightarrow> localPath (?dl ! i) = None)
        \<and> (\<forall>path. settles e i (d_url (?dl ! i)) (filename (?dl ! i)) = Inr path
              \<longrightarrow> localPath (?dl ! i) = Some path)
        \<and> (\<forall>g dl' v v'.
              (\<forall>j. j \<noteq> i \<longrightarrow> g j = http_get e j) \<and> (\<forall>f. stream_ready e v f)
              \<and> download_loop (e\<lparr>http_get := g\<rparr>) (prompt a) ?sd 0 ?imgs [] v
                  = (Done (Inr dl'), v')
              \<longrightarrow> (\<forall>j < length ?imgs. j \<noteq> i \<longrightarrow> dl' ! j = ?dl ! j))"
    if i: "i < length ?imgs" for i
  proof (intro conjI allI impI)
    show "d_url (?dl ! i) = url (?imgs ! i)"
      by (simp add: nth_entries_from [OF i] entry_at_url)
    show "index (?dl ! i) = i + 1"
      by (simp add: nth_entries_from [OF i] entry_at_index)
  next
    fix err
    assume "settles e i (d_url (?dl ! i)) (filename (?dl ! i)) = Inl err"
    then show "localPath (?dl ! i) = None"
      by (simp add: nth_entries_from [OF i] entry_at_localPath entry_at_url)
  next
    fix path
    assume "settles e i (d_url (?dl ! i)) (filename (?dl ! i)) = Inr path"
    then show "localPath (?dl ! i) = Some path"
      by (simp add: nth_entries_from [OF i] entry_at_localPath entry_at_url)
  next
    fix g dl' v v' j
    assume h: "(\<forall>j. j \<noteq> i \<longrightarrow> g j = http_get e j) \<and> (\<forall>f. stream_ready e v f)
        \<and> download_loop (e\<lparr>http_get := g\<rparr>) (prompt a) ?sd 0 ?imgs [] v = (Done (Inr dl'), v')"
      and j: "j < length ?imgs" "j \<noteq> i"
    from h have "\<forall>f. stream_ready (e\<lparr>http_get := g\<rparr>) v f"
      by (simp add: stream_ready_http_get)
    from download_loop_entries [OF this, of p ?sd 0 ?imgs "[]"] h
    have "dl' = entries_from (e\<lparr>http_get := g\<rparr>) p ?sd 0 ?imgs"
      by (simp add: assms(1))
    moreover from h j have "g j = http_get e j" by simp
    ultimately show "dl' ! j = ?dl ! j"
      by (simp add: nth_entries_from [OF j(1)] entry_at_other_get)
  qed
  show ?thesis
    using run r len tr each by blast
qed

text \<open>The sample run on an empty disk: the first download meets a 404 and gets a null
  path, the second is stored under the generated name.\<close>

lemma first_fails_paths:
  "map localPath (entries_from first_fails_env ''cat'' None 0 (images (data two_images_result)))
     = [None, Some ''/srv/images/minimax_cat_2_2024-01-02T03-04-05-678Z.png'']"
  by code_simp

text \<open>
  Claim C1: a failed download of image \<open>i\<close> gives that entry a null path, leaves the
  other entries as they are, does not keep the images after \<open>i\<close> from being attempted,
  and the tool call still returns a response without the error flag. In the run below
  the vendor returns two images and a regular file named \<open>images\<close> sits in the working
  directory, so the write stream of the first download cannot be opened. Its \<^verbatim>\<open>error\<close>
  event has no listener, the process is killed: the handler hands back no response, no
  entry is recorded, and the second image is never attempted (the trace holds the vendor
  call and the first download only).
\<close>

theorem unopened_stream_ends_the_batch:
  "fst (minimax_generate True two_images_env cat_args blocked_world)
     = Killed (JsError (''ENOTDIR: not a directory, open '' @ squote
         @ ''/srv/images/minimax_cat_1_2024-01-02T03-04-05-678Z.png'' @ squote))
   \<and> trace (snd (minimax_generate True two_images_env cat_args blocked_world))
     = [Subscribe (generate_input cat_args),
        Download ''https://cdn.example/a.png'' ''minimax_cat_1_2024-01-02T03-04-05-678Z.png'']"
  by code_simp

section \<open>The report of a synchronous generation\<close>

lemma minimax_generate_text:
  assumes "prompt a = Some p" and "fal_subscribe e (generate_input a) = Inr res"
    and "\<forall>f. stream_ready e w f"
  shows "ended_text (minimax_generate True e a w)
     = generate_report (Some p) (case aspect_ratio a of None \<Rightarrow> ''1:1'' | Some r \<Rightarrow> r)
         (case num_images a of None \<Rightarrow> 1 | Some k \<Rightarrow> k) (prompt_optimizer a) res
         (entries_from e p (seed (data res)) 0 (images (data res)))"
proof -
  let ?w1 = "called (Subscribe (generate_input a)) w"
  let ?run = "download_loop e (Some p) (seed (data res)) 0 (images (data res)) [] ?w1"
  have ready: "\<forall>f. stream_ready e ?w1 f"
    using assms(3) by (simp add: stream_ready_called)
  obtain x w' where run: "?run = (x, w')" by (cases ?run)
  with download_loop_entries [OF ready, of p "seed (data res)" 0 "images (data res)" "[]"]
  have x: "x = Done (Inr (entries_from e p (seed (data res)) 0 (images (data res))))" by simp
  show ?thesis
    using assms(1,2)
    by (simp add: ended_text_def minimax_generate_def minimax_generate_try_def Let_def run x
        text_response_def response_text_def)
qed

lemma sublist_here2: "sublist (a @ b) (a @ b @ s)"
  by (metis append.assoc sublist_append_rightI)

lemma sublist_here4: "sublist (a @ b @ c @ d) (a @ b @ c @ d @ s)"
  by (metis append.assoc sublist_append_rightI)

text \<open>What the report holds for every input: the quoted prompt, the aspect ratio, the
  requested number of images, the optimizer line, the seed line, the request id and the
  details of the images.\<close>

lemma generate_report_contents:
  "sublist (''Prompt: '' @ dquote @ js_str p @ dquote) (generate_report p aspect n opt res dl)
   \<and> sublist (''Aspect Ratio: '' @ aspect) (generate_report p aspect n opt res dl)
   \<and> sublist (''Number of Images: '' @ js_int n) (generate_report p aspect n opt res dl)
   \<and> sublist (optimizer_line opt) (generate_report p aspect n opt res dl)
   \<and> sublist (seed_line (seed (data res))) (generate_report p aspect n opt res dl)
   \<and> sublist (''Request ID: '' @ requestId res) (generate_report p aspect n opt res dl)
   \<and> sublist (imageDetails dl) (generate_report p aspect n opt res dl)"
  unfolding generate_report_def
  by (intro conjI;
      (rule sublist_here4 | rule sublist_here2 | rule sublist_append_rightI | rule sublist_skip)+)

text \<open>The seed line names the seed when it is not zero, and says \<open>Auto-generated\<close> when
  there is none; a seed of zero is falsy and gets the line of the absent seed.\<close>

lemma seed_line_cases:
  "seed_line None = ''Seed: Auto-generated''"
  "k \<noteq> 0 \<Longrightarrow> seed_line (Some k) = ''Seed: '' @ js_int k"
  "seed_line (Some 0) = ''Seed: Auto-generated''"
  by (simp_all add: seed_line_def)

lemma seed_zero_text:
  "ended_text (minimax_generate True seed_zero_env cat_args world0)
     = generate_report (Some ''cat'') ''1:1'' 1 None seed_zero_result
         (entries_from seed_zero_env ''cat'' (Some 0) 0 [one_image])"
proof -
  have p: "prompt cat_args = Some ''cat''"
    by (simp add: cat_args_def no_args_def)
  have s: "fal_subscribe seed_zero_env (generate_input cat_args) = Inr seed_zero_result"
    by (simp add: seed_zero_env_def down_env_def)
  have r: "\<forall>f. stream_ready seed_zero_env world0 f"
    by (simp add: stream_ready_def world0_def seed_zero_env_def down_env_def)
  show ?thesis
    unfolding minimax_generate_text [OF p s r]
    by (simp add: cat_args_def no_args_def seed_zero_result_def)
qed

lemma seed_zero_says_auto:
  "sublist ''Seed: Auto-generated''
     (generate_report (Some ''cat'') ''1:1'' 1 None seed_zero_result
        (entries_from seed_zero_env ''cat'' (Some 0) 0 [one_image]))"
  by code_simp

lemma seed_zero_not_named:
  "\<not> sublist ''Seed: 0''
     (generate_report (Some ''cat'') ''1:1'' 1 None seed_zero_result
        (entries_from seed_zero_env ''cat'' (Some 0) 0 [one_image]))"
  by code_simp

text \<open>
  Claim C8: the report of a successful \<^verbatim>\<open>minimax_generate\<close> names the seed whenever the
  vendor's result includes one, and says \<open>Auto-generated\<close> when the seed is absent. The
  code tests the seed for truthiness, not for presence: in the run below the result
  includes the seed \<open>0\<close>, and the report says \<open>Seed: Auto-generated\<close> and has no line
  \<open>Seed: 0\<close>.
\<close>

theorem seed_zero_reported_as_auto_generated:
  "seed (data seed_zero_result) = Some 0
   \<and> fal_subscribe seed_zero_env (generate_input cat_args) = Inr seed_zero_result
   \<and> sublist ''Seed: Auto-generated''
       (ended_text (minimax_generate True seed_zero_env cat_args world0))
   \<and> \<not> sublist ''Seed: 0''
       (ended_text (minimax_generate True seed_zero_env cat_args world0))"
  unfolding seed_zero_text using seed_zero_says_auto seed_zero_not_named
  by (simp add: seed_zero_result_def seed_zero_env_def down_env_def)

section \<open>The bounds on the number of images\<close>

lemma download_loop_trace_ext:
  "\<exists>cs. trace (snd (download_loop e p sd i imgs acc w)) = trace w @ cs"
proof (induction imgs arbitrary: i acc w)
  case Nil
  show ?case by simp
next
  case (Cons img rest)
  show ?case
  proof (cases "filename_for p (i + 1) sd (now e i)")
    case (Inl err)
    then show ?thesis by simp
  next
    case (Inr fname)
    obtain r w' where d: "downloadImage e i (url img) fname w = (r, w')"
      by (cases "downloadImage e i (url img) fname w")
    have t: "trace w' = trace w @ [Download (url img) fname]"
      using downloadImage_trace [of e i "url img" fname w] d by simp
    show ?thesis
    proof (cases r)
      case (Killed err)
      then show ?thesis using Inr d t by simp
    next
      case (Done s)
      show ?thesis
      proof (cases s)
        case (Inl rejected)
        obtain cs where "trace (snd (download_loop e p sd (i + 1) rest
            (acc @ [entry img None i fname]) w')) = trace w' @ cs"
          using Cons.IH by blast
        then show ?thesis using Inr d t Done Inl by simp
      next
        case (Inr path)
        obtain cs where "trace (snd (download_loop e p sd (i + 1) rest
            (acc @ [entry img (Some path) i fname]) w')) = trace w' @ cs"
          using Cons.IH by blast
        then show ?thesis using \<open>filename_for p (i + 1) sd (now e i) = Inr fname\<close> d t Done Inr
          by simp
      qed
    qed
  qed
qed

text \<open>The handler itself has no check of the number: whatever \<^verbatim>\<open>num_images\<close> holds goes
  into the request body of the vendor call, the default 1 standing in for an absent one.\<close>

lemma minimax_generate_forwards:
  "\<exists>cs. trace (snd (minimax_generate True e a w)) = trace w @ Subscribe (generate_input a) # cs"
proof (cases "fal_subscribe e (generate_input a)")
  case (Inl err)
  then show ?thesis
    by (simp add: minimax_generate_def minimax_generate_try_def Let_def called_def)
next
  case (Inr res)
  let ?run = "download_loop e (prompt a) (seed (data res)) 0 (images (data res)) []
                (called (Subscribe (generate_input a)) w)"
  obtain x w' where run: "?run = (x, w')" by (cases ?run)
  obtain cs where "trace (snd ?run) = trace (called (Subscribe (generate_input a)) w) @ cs"
    using download_loop_trace_ext by blast
  then have "trace w' = trace w @ Subscribe (generate_input a) # cs"
    unfolding run by (simp add: called_def)
  then show ?thesis
    using Inr run
    by (auto simp: minimax_generate_def minimax_generate_try_def Let_def
        split: ending.splits sum.splits)
qed

lemma generate_input_num_images:
  "num_images (generate_input a) = Some (case num_images a of None \<Rightarrow> 1 | Some k \<Rightarrow> k)"
  by (simp add: generate_input_def)

lemma handler_alone_forwards_ten:
  "num_images a = Some 10 \<Longrightarrow>
   \<exists>cs. trace (snd (minimax_generate True e a w)) = trace w @ Subscribe (generate_input a) # cs
        \<and> num_images (generate_input a) = Some 10"
  using minimax_generate_forwards [of e a w] by (simp add: generate_input_num_images)

text \<open>
  Claim C9: behind the schema-validation boundary, a call of \<^verbatim>\<open>minimax_generate\<close> whose
  other arguments are valid and whose \<^verbatim>\<open>num_images\<close> is 1 or 9 is accepted, and the
  handler's vendor call carries that number unchanged; a call with \<^verbatim>\<open>num_images\<close> 10 is
  rejected at the boundary and leaves the world as it was, so no vendor call is made.
\<close>

theorem num_images_bounds_at_boundary:
  assumes "prompt a = Some p" and "length p \<le> 1500"
    and "case aspect_ratio a of None \<Rightarrow> True | Some r \<Rightarrow> r \<in> set aspect_ratio_enum"
  shows "(num_images a = Some 1 \<or> num_images a = Some 9 \<longrightarrow>
            (\<exists>r w' cs. validated_minimax_generate True e a w = (Passed r, w')
               \<and> trace w' = trace w @ Subscribe (generate_input a) # cs
               \<and> num_images (generate_input a) = num_images a))
       \<and> (num_images a = Some 10 \<longrightarrow>
            validated_minimax_generate configured e a w = (Rejected, w))"
proof (intro conjI impI)
  assume n: "num_images a = Some 1 \<or> num_images a = Some 9"
  then have ok: "schema_accepts a"
    using assms by (auto simp: schema_accepts_def num_images_schema_def prompt_maxLength_def)
  obtain r w' where g: "minimax_generate True e a w = (r, w')"
    by (cases "minimax_generate True e a w")
  obtain cs where "trace w' = trace w @ Subscribe (generate_input a) # cs"
    using minimax_generate_forwards [of e a w] by (auto simp: g)
  moreover have "num_images (generate_input a) = num_images a"
    using n by (auto simp: generate_input_num_images)
  ultimately show "\<exists>r w' cs. validated_minimax_generate True e a w = (Passed r, w')
               \<and> trace w' = trace w @ Subscribe (generate_input a) # cs
               \<and> num_images (generate_input a) = num_images a"
    by (simp add: validated_minimax_generate_def ok g)
next
  assume "num_images a = Some 10"
  then have "\<not> schema_accepts a"
    by (simp add: schema_accepts_def num_images_schema_def)
  then show "validated_minimax_generate configured e a w = (Rejected, w)"
    by (simp add: validated_minimax_generate_def)
qed

theorem num_images_bounds_at_boundary_witness:
  "(prompt (cat_args\<lparr>num_images := Some 9\<rparr>) = Some ''cat'' \<and> length ''cat'' \<le> (1500::nat)
    \<and> (case aspect_ratio (cat_args\<lparr>num_images := Some 9\<rparr>) of None \<Rightarrow> True
        | Some r \<Rightarrow> r \<in> set aspect_ratio_enum)
    \<and> num_images (cat_args\<lparr>num_images := Some 9\<rparr>) = Some 9)
   \<and> (\<exists>r w' cs. validated_minimax_generate True down_env (cat_args\<lparr>num_images := Some 9\<rparr>)
            world0 = (Passed r, w')
        \<and> trace w' = trace world0
            @ Subscribe (generate_input (cat_args\<lparr>num_images := Some 9\<rparr>)) # cs
        \<and> num_images (generate_input (cat_args\<lparr>num_images := Some 9\<rparr>)) = Some 9)
   \<and> (prompt (cat_args\<lparr>num_images := Some 10\<rparr>) = Some ''cat''
        \<and> num_images (cat_args\<lparr>num_images := Some 10\<rparr>) = Some 10)
   \<and> validated_minimax_generate True down_env (cat_args\<lparr>num_images := Some 10\<rparr>) world0
        = (Rejected, world0)"
proof -
  let ?a9 = "cat_args\<lparr>num_images := Some 9\<rparr>" and ?a10 = "cat_args\<lparr>num_images := Some 10\<rparr>"
  have p9: "prompt ?a9 = Some ''cat''" and p10: "prompt ?a10 = Some ''cat''"
    by (simp_all add: cat_args_def no_args_def)
  have l: "length ''cat'' \<le> (1500::nat)" by simp
  have r9: "case aspect_ratio ?a9 of None \<Rightarrow> True | Some r \<Rightarrow> r \<in> set aspect_ratio_enum"
    and r10: "case aspect_ratio ?a10 of None \<Rightarrow> True | Some r \<Rightarrow> r \<in> set aspect_ratio_enum"
    by (simp_all add: cat_args_def no_args_def)
  have n9: "num_images ?a9 = Some 9" and n10: "num_images ?a10 = Some 10"
    by simp_all
  have a: "\<exists>r w' cs. validated_minimax_generate True down_env ?a9 world0 = (Passed r, w')
        \<and> trace w' = trace world0 @ Subscribe (generate_input ?a9) # cs
        \<and> num_images (generate_input ?a9) = Some 9"
    using num_images_bounds_at_boundary [OF p9 l r9, of down_env world0 True, THEN conjunct1] n9
    by simp
  have b: "validated_minimax_generate True down_env ?a10 world0 = (Rejected, world0)"
    using num_images_bounds_at_boundary [OF p10 l r10, of down_env world0 True, THEN conjunct2]
      n10
    by simp
  show ?thesis
    using p9 p10 l r9 n9 n10 a b by (intro conjI)
qed

end
